theory Spec2Isabelle
  imports Complex_Main "HOL-Library.AList" "HOL-Library.Multiset"
begin

section \<open>JavaScript numbers\<close>

text \<open>
  The settlement code of \<^verbatim>\<open>functions/index.js\<close> computes with JavaScript numbers.
  A number is modelled as an exact value or \<^verbatim>\<open>NaN\<close>; rounding of binary floating point
  is not modelled. Scores and counts carry integers, winnings carry reals.
  Every comparison with \<^verbatim>\<open>NaN\<close> is false and every sum or product with it is \<^verbatim>\<open>NaN\<close>.
\<close>

datatype 'a jsnum = Num 'a | NaN

fun js_gt :: "('a::linorder) jsnum \<Rightarrow> 'a jsnum \<Rightarrow> bool" where
  "js_gt (Num a) (Num b) = (b < a)"
| "js_gt _ _ = False"

fun js_add :: "('a::plus) jsnum \<Rightarrow> 'a jsnum \<Rightarrow> 'a jsnum" where
  "js_add (Num a) (Num b) = Num (a + b)"
| "js_add _ _ = NaN"

fun js_sub :: "('a::minus) jsnum \<Rightarrow> 'a jsnum \<Rightarrow> 'a jsnum" where
  "js_sub (Num a) (Num b) = Num (a - b)"
| "js_sub _ _ = NaN"

text \<open>\<^verbatim>\<open>x || 0\<close> on a number: \<^verbatim>\<open>NaN\<close> and \<^verbatim>\<open>0\<close> are falsy, so both give \<^verbatim>\<open>0\<close>.\<close>

fun or_zero :: "('a::zero) jsnum \<Rightarrow> 'a jsnum" where
  "or_zero (Num a) = Num a"
| "or_zero NaN = Num 0"

text \<open>
  \<^verbatim>\<open>parseInt\<close> applied to a stored score: \<^verbatim>\<open>null\<close> (here \<open>None\<close>) and \<^verbatim>\<open>NaN\<close>
  give \<^verbatim>\<open>NaN\<close>, an integer is returned as it is.
\<close>

fun parseInt :: "int jsnum option \<Rightarrow> int jsnum" where
  "parseInt None = NaN"
| "parseInt (Some n) = n"

section \<open>Week Clock\<close>

text \<open>
  \<^verbatim>\<open>getCurrentNFLWeekInfo\<close> reads \<^verbatim>\<open>new Date()\<close> and works on its local-time fields.
  A \<^verbatim>\<open>Date\<close> is modelled by its local day number (days since Thursday 1 January 1970)
  and the milliseconds elapsed within that day. The calendar fields are computed from the
  day number as ECMAScript defines them (\<open>DayFromYear\<close>, \<open>YearFromTime\<close>,
  \<open>MonthFromTime\<close>, \<open>DateFromTime\<close>, \<open>WeekDay\<close>); \<^verbatim>\<open>setDate(getDate() + k)\<close>
  moves the day number by \<open>k\<close>, which is what \<open>MakeDay\<close> does with a day of the month
  beyond the end of the month. Daylight-saving shifts and \<^verbatim>\<open>toISOString\<close> are not
  modelled: the boundaries are kept as local dates.
\<close>

record DateTime =
  day :: nat
  msec :: nat

definition DayFromYear :: "int \<Rightarrow> int" where
  "DayFromYear y = 365 * (y - 1970) + (y - 1969) div 4 - (y - 1901) div 100 + (y - 1601) div 400"

definition InLeapYear :: "int \<Rightarrow> bool" where
  "InLeapYear y = (y mod 4 = 0 \<and> (y mod 100 \<noteq> 0 \<or> y mod 400 = 0))"

text \<open>The largest year whose first day is not after day \<open>d\<close>, searched downwards.\<close>

function year_down :: "int \<Rightarrow> int \<Rightarrow> int" where
  "year_down y d = (if DayFromYear y \<le> d then y else year_down (y - 1) d)"
  by pat_completeness auto
termination
proof (relation "measure (\<lambda>(y, d). nat (DayFromYear y - d))")
  show "wf (measure (\<lambda>(y, d). nat (DayFromYear y - d)))" by simp
next
  fix y d :: int
  assume "\<not> DayFromYear y \<le> d"
  moreover have "DayFromYear (y - 1) < DayFromYear y"
  proof -
    define a where "a = (y - 1969) div 4"
    define a' where "a' = (y - 1 - 1969) div 4"
    define b where "b = (y - 1901) div 100"
    define b' where "b' = (y - 1 - 1901) div 100"
    define c where "c = (y - 1601) div 400"
    define c' where "c' = (y - 1 - 1601) div 400"
    have "a' \<le> a"
      unfolding a_def a'_def by (intro zdiv_mono1) simp_all
    moreover have "c' \<le> c"
      unfolding c_def c'_def by (intro zdiv_mono1) simp_all
    moreover have "b \<le> b' + 1"
    proof -
      have "(y - 1901) div 100 \<le> (y - 1 - 1901 + 100) div 100"
        by (intro zdiv_mono1) simp_all
      also have "\<dots> = (y - 1 - 1901) div 100 + 1"
        by (rule div_add_self2) simp
      finally show ?thesis by (simp only: b_def b'_def)
    qed
    moreover have "DayFromYear y = 365 * (y - 1970) + a - b + c"
      by (simp only: DayFromYear_def a_def b_def c_def)
    moreover have "DayFromYear (y - 1) = 365 * (y - 1 - 1970) + a' - b' + c'"
      by (simp only: DayFromYear_def a'_def b'_def c'_def)
    ultimately show ?thesis by simp
  qed
  ultimately show "((y - 1, d), (y, d)) \<in> measure (\<lambda>(y, d). nat (DayFromYear y - d))"
    by simp
qed

declare year_down.simps [simp del]

definition YearFromDay :: "int \<Rightarrow> int" where
  "YearFromDay d = year_down (1970 + d div 365) d"

text \<open>The day of the year on which month \<open>m\<close> (0 to 11) starts.\<close>

definition month_start :: "bool \<Rightarrow> int \<Rightarrow> int" where
  "month_start leap m =
     (if m \<le> 0 then 0 else if m = 1 then 31
      else (if leap then 1 else 0) +
        (if m = 2 then 59 else if m = 3 then 90 else if m = 4 then 120 else if m = 5 then 151
         else if m = 6 then 181 else if m = 7 then 212 else if m = 8 then 243
         else if m = 9 then 273 else if m = 10 then 304 else 334))"

definition MonthFromDay :: "bool \<Rightarrow> int \<Rightarrow> int" where
  "MonthFromDay leap dwy =
     (if dwy < month_start leap 1 then 0 else if dwy < month_start leap 2 then 1
      else if dwy < month_start leap 3 then 2 else if dwy < month_start leap 4 then 3
      else if dwy < month_start leap 5 then 4 else if dwy < month_start leap 6 then 5
      else if dwy < month_start leap 7 then 6 else if dwy < month_start leap 8 then 7
      else if dwy < month_start leap 9 then 8 else if dwy < month_start leap 10 then 9
      else if dwy < month_start leap 11 then 10 else 11)"

definition getFullYear :: "DateTime \<Rightarrow> int" where
  "getFullYear t = YearFromDay (int (day t))"

definition DayWithinYear :: "DateTime \<Rightarrow> int" where
  "DayWithinYear t = int (day t) - DayFromYear (getFullYear t)"

definition getMonth :: "DateTime \<Rightarrow> int" where
  "getMonth t = MonthFromDay (InLeapYear (getFullYear t)) (DayWithinYear t)"

definition getDate :: "DateTime \<Rightarrow> int" where
  "getDate t = DayWithinYear t - month_start (InLeapYear (getFullYear t)) (getMonth t) + 1"

definition getDay :: "DateTime \<Rightarrow> nat" where
  "getDay t = (day t + 4) mod 7"

definition addDays :: "DateTime \<Rightarrow> nat \<Rightarrow> DateTime" where
  "addDays t k = t\<lparr>day := day t + k\<rparr>"

definition setHours :: "DateTime \<Rightarrow> nat \<Rightarrow> nat \<Rightarrow> nat \<Rightarrow> nat \<Rightarrow> DateTime" where
  "setHours t h m s ms = t\<lparr>msec := ((h * 60 + m) * 60 + s) * 1000 + ms\<rparr>"

text \<open>Decimal text of a number inside a template literal.\<close>

definition digit_char :: "nat \<Rightarrow> char" where
  "digit_char n = ''0123456789'' ! n"

fun show_nat :: "nat \<Rightarrow> string" where
  "show_nat n = (if n < 10 then [digit_char n]
                 else show_nat (n div 10) @ [digit_char (n mod 10)])"

declare show_nat.simps [simp del]

definition show_int :: "int \<Rightarrow> string" where
  "show_int i = (if i < 0 then CHR ''-'' # show_nat (nat (- i)) else show_nat (nat i))"

record WeekInfo =
  weekId :: string
  bettingWindowStart :: DateTime
  bettingWindowEnd :: DateTime
  picksRevealTime :: DateTime
  tieBreakerGameId :: "string option"

definition upcomingTuesday :: "DateTime \<Rightarrow> DateTime" where
  "upcomingTuesday now = setHours (addDays now ((2 + 7 - getDay now) mod 7)) 0 1 0 0"

definition getCurrentNFLWeekInfo :: "DateTime \<Rightarrow> WeekInfo" where
  "getCurrentNFLWeekInfo now =
     (let tuesday = upcomingTuesday now;
          thursday5PM = setHours (addDays tuesday 2) 17 0 0 0;
          fridayNoon = setHours (addDays thursday5PM 1) 12 0 0 0
      in \<lparr>weekId = ''week-'' @ show_int (getFullYear tuesday) @ ''-'' @
                     show_int (getMonth tuesday + 1) @ ''-'' @ show_int (getDate tuesday),
          bettingWindowStart = tuesday,
          bettingWindowEnd = thursday5PM,
          picksRevealTime = fridayNoon,
          tieBreakerGameId = None\<rparr>)"

section \<open>Data model\<close>

text \<open>
  A JavaScript object used as a dictionary is an association list with distinct keys,
  in insertion order. \<^verbatim>\<open>null\<close> is \<open>None\<close>. Fields keep the names of the source;
  \<open>id_game\<close> is the \<^verbatim>\<open>id\<close> of a game, and \<open>commenceTime\<close> is the instant its text
  denotes.
\<close>

record Score =
  home :: "int jsnum option"
  away :: "int jsnum option"

text \<open>
  The \<^verbatim>\<open>odds\<close> object of a game. \<open>moneyline\<close> is its \<^verbatim>\<open>moneyline\<close> property
  (\<open>None\<close> when the object has no such property); \<open>own_prices\<close> holds prices stored
  directly under team names, which is what the scheduled sync writes for a game it appends.
\<close>

record Odds =
  moneyline :: "(string \<times> int) list option"
  own_prices :: "(string \<times> int) list"

record Game =
  id_game :: string
  homeTeam :: string
  awayTeam :: string
  commenceTime :: int
  odds :: Odds
  score :: Score
  completed :: bool

datatype outcome = pending | win | loss

record Pick =
  gameId :: string
  pick :: string
  tier :: int
  outcome :: outcome
  winnings :: "real jsnum"

record Prediction =
  userId :: string
  picks :: "(string \<times> Pick) list"
  tieBreakerPoints :: int
  isSettled :: bool
  totalCorrectPicks :: int
  totalWinnerBucksWon :: "real jsnum"

text \<open>
  The week document \<^verbatim>\<open>nflWeeks/{weekId}\<close>: the fields of \<^verbatim>\<open>weekInfo\<close>, the game
  list and the tie-breaker total. \<^verbatim>\<open>lastUpdated\<close> (a server timestamp) is left out.
\<close>

record WeekDoc = WeekInfo +
  games :: "Game list"
  actualTieBreakerTotalPoints :: "int jsnum option"

text \<open>\<^verbatim>\<open>{ ...weekInfo, games: ..., actualTieBreakerTotalPoints: ... }\<close>\<close>

definition week_doc_of :: "WeekInfo \<Rightarrow> Game list \<Rightarrow> int jsnum option \<Rightarrow> WeekDoc" where
  "week_doc_of weekInfo gs actual =
     \<lparr>weekId = weekId weekInfo,
      bettingWindowStart = bettingWindowStart weekInfo,
      bettingWindowEnd = bettingWindowEnd weekInfo,
      picksRevealTime = picksRevealTime weekInfo,
      tieBreakerGameId = tieBreakerGameId weekInfo,
      games = gs,
      actualTieBreakerTotalPoints = actual\<rparr>"

record Profile =
  winnerBucks :: "real jsnum"

text \<open>
  One user. \<open>profile\<close> is the document \<^verbatim>\<open>users/{userId}/profile/data\<close> and
  \<open>predictions\<close> the documents \<^verbatim>\<open>users/{userId}/predictions/{weekId}\<close>, which the
  settlement reads and writes. \<open>doc_username\<close> and \<open>doc_predictions\<close> are the fields
  \<^verbatim>\<open>profile.data.username\<close> and \<^verbatim>\<open>predictions[weekId]\<close> of the document
  \<^verbatim>\<open>users/{userId}\<close> itself, which is what the leaderboard code reads
  (\<^verbatim>\<open>userDoc.data().profile?.data\<close>, \<^verbatim>\<open>userDoc.data().predictions?.[weekInfo.weekId]\<close>).
\<close>

record User =
  user_id :: string
  profile :: "Profile option"
  predictions :: "string \<rightharpoonup> Prediction"
  doc_username :: "string option"
  doc_predictions :: "string \<rightharpoonup> Prediction"

record LeaderboardEntry =
  entry_id :: string
  entry_username :: string
  entry_totalCorrectPicks :: int
  entry_totalWinnerBucksWon :: "real jsnum"
  entry_tieBreakerPoints :: int

record Leaderboard =
  lb_weekId :: string
  entries :: "LeaderboardEntry list"
  lb_actualTieBreakerTotalPoints :: "int jsnum option"

record Store =
  nflWeeks :: "string \<rightharpoonup> WeekDoc"
  users :: "User list"
  leaderboards :: "string \<rightharpoonup> Leaderboard"

subsection \<open>Records of the odds provider\<close>

text \<open>
  An odds record may lack its \<^verbatim>\<open>bookmakers\<close> property and a score record may carry
  \<^verbatim>\<open>scores: null\<close> (\<open>None\<close>). \<open>commence_time\<close> is the instant the ISO text denotes.
  \<open>team_score\<close> is what \<^verbatim>\<open>parseInt\<close> reads in the \<^verbatim>\<open>score\<close> text of a team: \<open>None\<close>
  when the text is missing or empty (falsy), \<open>Some NaN\<close> when it does not start with a number.
\<close>

record ApiOutcome =
  outcome_name :: string
  price :: int

record ApiMarket =
  market_key :: string
  outcomes :: "ApiOutcome list"

record ApiBookmaker =
  markets :: "ApiMarket list"

record ApiOdds =
  odds_id :: string
  home_team :: string
  away_team :: string
  commence_time :: int
  bookmakers :: "ApiBookmaker list option"

record ApiTeamScore =
  team_name :: string
  team_score :: "int jsnum option"

record ApiScore =
  score_id :: string
  score_completed :: bool
  scores :: "ApiTeamScore list option"

text \<open>
  What a call of the provider gives: no key is configured, the request fails, or data.
\<close>

datatype 'a fetch = NoApiKey | FetchFailed | Fetched 'a

datatype error = HttpsError | TypeError

section \<open>Sorting\<close>

text \<open>
  \<^verbatim>\<open>Array.prototype.sort\<close> with a comparator is stable; a comparator result that is
  \<^verbatim>\<open>NaN\<close> counts as 0. It is modelled as a stable insertion sort: an element moves behind
  another only where the comparator is positive. With a consistent comparator every stable
  sort gives this result.
\<close>

fun insert_sorted :: "('a \<Rightarrow> 'a \<Rightarrow> real jsnum) \<Rightarrow> 'a \<Rightarrow> 'a list \<Rightarrow> 'a list" where
  "insert_sorted cmp x [] = [x]"
| "insert_sorted cmp x (y # ys) =
     (if js_gt (cmp x y) (Num 0) then y # insert_sorted cmp x ys else x # y # ys)"

definition js_sort :: "('a \<Rightarrow> 'a \<Rightarrow> real jsnum) \<Rightarrow> 'a list \<Rightarrow> 'a list" where
  "js_sort cmp xs = foldr (insert_sorted cmp) xs []"

section \<open>Odds/Scores Normalizer and Game Merge\<close>

text \<open>
  \<^verbatim>\<open>h2hMarket.outcomes.forEach(outcome => { moneylineOdds[outcome.name] = outcome.price; })\<close>
  and the \<^verbatim>\<open>reduce\<close> of the scheduled sync build the same object.
\<close>

definition moneyline_of :: "ApiOutcome list \<Rightarrow> (string \<times> int) list" where
  "moneyline_of os = foldl (\<lambda>acc outcome. AList.update (outcome_name outcome) (price outcome) acc) [] os"

definition h2h :: "ApiBookmaker \<Rightarrow> ApiMarket option" where
  "h2h bookmaker = find (\<lambda>m. market_key m = ''h2h'') (markets bookmaker)"

text \<open>The callback of \<^verbatim>\<open>oddsResponse.data.map\<close> in \<^verbatim>\<open>getNFLOdds\<close>.\<close>

definition normalize_event :: "ApiOdds \<Rightarrow> Game" where
  "normalize_event event =
     (let moneylineOdds =
        (case bookmakers event of
           None \<Rightarrow> []
         | Some [] \<Rightarrow> []
         | Some (firstBookmaker # _) \<Rightarrow>
             (case h2h firstBookmaker of
                None \<Rightarrow> []
              | Some h2hMarket \<Rightarrow> moneyline_of (outcomes h2hMarket)))
      in \<lparr>id_game = odds_id event, homeTeam = home_team event, awayTeam = away_team event,
          commenceTime = commence_time event,
          odds = \<lparr>moneyline = Some moneylineOdds, own_prices = []\<rparr>,
          score = \<lparr>home = None, away = None\<rparr>, completed = False\<rparr>)"

text \<open>
  \<^verbatim>\<open>parseInt(liveScoreData.scores.find(s => s.name === team)?.score || 0)\<close>: a team that
  is not listed, or listed without a score, reads 0.
\<close>

definition live_score :: "ApiTeamScore list \<Rightarrow> string \<Rightarrow> int jsnum" where
  "live_score ss team =
     (case find (\<lambda>s. team_name s = team) ss of
        None \<Rightarrow> Num 0
      | Some s \<Rightarrow> (case team_score s of None \<Rightarrow> Num 0 | Some v \<Rightarrow> v))"

text \<open>
  The score part of the callback of \<^verbatim>\<open>currentWeekGames.map\<close> in the scheduled sync.
  The callback also assigns the variable \<^verbatim>\<open>actualTieBreakerTotalPoints\<close>, which is
  threaded through. Calling \<^verbatim>\<open>find\<close> on \<^verbatim>\<open>scores: null\<close> raises a
  \<^verbatim>\<open>TypeError\<close>.
  \<^verbatim>\<open>
  if (liveScoreData && liveScoreData.completed) {
      ...
      game.score = { home: homeScore, away: awayScore };
      game.completed = true;
      if (game.id === currentWeekTieBreakerGameId && actualTieBreakerTotalPoints === null) {
          actualTieBreakerTotalPoints = homeScore + awayScore;
      }
  } else if (liveScoreData && liveScoreData.scores) {
      ...
      game.score = { home: homeScore, away: awayScore };
      game.completed = false;
  }
  \<close>
\<close>

definition merge_score ::
  "string option \<Rightarrow> ApiScore list \<Rightarrow> int jsnum option \<Rightarrow> Game \<Rightarrow> error + (Game \<times> int jsnum option)" where
  "merge_score currentWeekTieBreakerGameId apiScoresData actual game =
     (case find (\<lambda>s. score_id s = id_game game) apiScoresData of
        None \<Rightarrow> Inr (game, actual)
      | Some liveScoreData \<Rightarrow>
          if score_completed liveScoreData then
            (case scores liveScoreData of
               None \<Rightarrow> Inl TypeError
             | Some ss \<Rightarrow>
                 (let homeScore = live_score ss (homeTeam game);
                      awayScore = live_score ss (awayTeam game)
                  in Inr (game\<lparr>score := \<lparr>home = Some homeScore, away = Some awayScore\<rparr>,
                                completed := True\<rparr>,
                          if Some (id_game game) = currentWeekTieBreakerGameId \<and> actual = None
                          then Some (js_add homeScore awayScore) else actual)))
          else
            (case scores liveScoreData of
               None \<Rightarrow> Inr (game, actual)
             | Some ss \<Rightarrow>
                 (let homeScore = live_score ss (homeTeam game);
                      awayScore = live_score ss (awayTeam game)
                  in Inr (game\<lparr>score := \<lparr>home = Some homeScore, away = Some awayScore\<rparr>,
                                completed := False\<rparr>,
                          actual))))"

text \<open>
  \<^verbatim>\<open>liveOddsData.bookmakers[0]?.markets.find(m => m.key === 'h2h')\<close>: indexing a missing
  \<^verbatim>\<open>bookmakers\<close> raises a \<^verbatim>\<open>TypeError\<close>; an empty list gives \<^verbatim>\<open>undefined\<close>.
\<close>

definition first_h2h :: "ApiOdds \<Rightarrow> error + ApiMarket option" where
  "first_h2h liveOddsData =
     (case bookmakers liveOddsData of
        None \<Rightarrow> Inl TypeError
      | Some [] \<Rightarrow> Inr None
      | Some (firstBookmaker # _) \<Rightarrow> Inr (h2h firstBookmaker))"

text \<open>
  \<^verbatim>\<open>
  if (liveOddsData) {
      const h2hMarket = liveOddsData.bookmakers[0]?.markets.find(m => m.key === 'h2h');
      if (h2hMarket) { game.odds.moneyline = h2hMarket.outcomes.reduce(...); }
  }
  \<close>
\<close>

definition merge_odds :: "ApiOdds list \<Rightarrow> Game \<Rightarrow> error + Game" where
  "merge_odds apiOddsData game =
     (case find (\<lambda>r. odds_id r = id_game game) apiOddsData of
        None \<Rightarrow> Inr game
      | Some liveOddsData \<Rightarrow>
          (case first_h2h liveOddsData of
             Inl e \<Rightarrow> Inl e
           | Inr None \<Rightarrow> Inr game
           | Inr (Some h2hMarket) \<Rightarrow>
               Inr (game\<lparr>odds := (odds game)\<lparr>moneyline := Some (moneyline_of (outcomes h2hMarket))\<rparr>\<rparr>)))"

text \<open>\<^verbatim>\<open>currentWeekGames.map(game => ...)\<close>, game by game; an exception ends it.\<close>

fun merge_games ::
  "string option \<Rightarrow> ApiScore list \<Rightarrow> ApiOdds list \<Rightarrow> int jsnum option \<Rightarrow> Game list
     \<Rightarrow> error + (Game list \<times> int jsnum option)" where
  "merge_games tb apiScoresData apiOddsData actual [] = Inr ([], actual)"
| "merge_games tb apiScoresData apiOddsData actual (game # rest) =
     (case merge_score tb apiScoresData actual game of
        Inl e \<Rightarrow> Inl e
      | Inr (g1, actual1) \<Rightarrow>
          (case merge_odds apiOddsData g1 of
             Inl e \<Rightarrow> Inl e
           | Inr g2 \<Rightarrow>
               (case merge_games tb apiScoresData apiOddsData actual1 rest of
                  Inl e \<Rightarrow> Inl e
                | Inr (gs, actual2) \<Rightarrow> Inr (g2 # gs, actual2))))"

text \<open>
  The game pushed for a provider record that matches no stored game. Its \<^verbatim>\<open>odds\<close> is
  the price object itself, without a \<^verbatim>\<open>moneyline\<close> property:
  \<^verbatim>\<open>
  odds: apiGame.bookmakers[0]?.markets.find(m => m.key === 'h2h')?.outcomes.reduce(
            (acc, outcome) => ({ ...acc, [outcome.name]: outcome.price }), {}) || {},
  \<close>
\<close>

definition new_game :: "ApiOdds \<Rightarrow> error + Game" where
  "new_game apiGame =
     (case first_h2h apiGame of
        Inl e \<Rightarrow> Inl e
      | Inr m \<Rightarrow>
          Inr \<lparr>id_game = odds_id apiGame, homeTeam = home_team apiGame, awayTeam = away_team apiGame,
               commenceTime = commence_time apiGame,
               odds = \<lparr>moneyline = None,
                       own_prices = (case m of None \<Rightarrow> []
                                     | Some h2hMarket \<Rightarrow> moneyline_of (outcomes h2hMarket))\<rparr>,
               score = \<lparr>home = None, away = None\<rparr>, completed = False\<rparr>)"

text \<open>
  \<^verbatim>\<open>apiOddsData.forEach(apiGame => { if (!updatedWeekGames.some(g => g.id === apiGame.id))
  updatedWeekGames.push({...}) })\<close>
\<close>

fun append_new_games :: "ApiOdds list \<Rightarrow> Game list \<Rightarrow> error + Game list" where
  "append_new_games [] updatedWeekGames = Inr updatedWeekGames"
| "append_new_games (apiGame # rest) updatedWeekGames =
     (if list_ex (\<lambda>g. id_game g = odds_id apiGame) updatedWeekGames
      then append_new_games rest updatedWeekGames
      else (case new_game apiGame of
              Inl e \<Rightarrow> Inl e
            | Inr g \<Rightarrow> append_new_games rest (updatedWeekGames @ [g])))"

text \<open>\<^verbatim>\<open>currentWeekFirestoreData.actualTieBreakerTotalPoints || null\<close>: 0 and \<^verbatim>\<open>NaN\<close> are falsy.\<close>

fun or_null :: "int jsnum option \<Rightarrow> int jsnum option" where
  "or_null (Some (Num n)) = (if n = 0 then None else Some (Num n))"
| "or_null _ = None"

text \<open>Game Merge: the stored games updated, then the new games appended.\<close>

definition game_merge ::
  "WeekDoc \<Rightarrow> ApiOdds list \<Rightarrow> ApiScore list \<Rightarrow> error + (Game list \<times> int jsnum option)" where
  "game_merge currentWeekFirestoreData apiOddsData apiScoresData =
     (case merge_games (tieBreakerGameId currentWeekFirestoreData) apiScoresData apiOddsData
             (or_null (actualTieBreakerTotalPoints currentWeekFirestoreData))
             (games currentWeekFirestoreData) of
        Inl e \<Rightarrow> Inl e
      | Inr (updatedWeekGames, actual) \<Rightarrow>
          (case append_new_games apiOddsData updatedWeekGames of
             Inl e \<Rightarrow> Inl e
           | Inr gs \<Rightarrow> Inr (gs, actual)))"

section \<open>Settlement Engine\<close>

text \<open>\<^verbatim>\<open>const payoutMultiplier = { 25: 0.1, 50: 0.12, 100: 0.15 };\<close>\<close>

definition payoutMultiplier :: "int \<rightharpoonup> real" where
  "payoutMultiplier = [25 \<mapsto> 0.1, 50 \<mapsto> 0.12, 100 \<mapsto> 0.15]"

text \<open>
  \<^verbatim>\<open>userPick.tier * payoutMultiplier[userPick.tier]\<close>: a tier outside the table reads
  \<^verbatim>\<open>undefined\<close>, and the product is \<^verbatim>\<open>NaN\<close>.
\<close>

definition tier_payout :: "int \<Rightarrow> real jsnum" where
  "tier_payout t = (case payoutMultiplier t of None \<Rightarrow> NaN | Some m \<Rightarrow> Num (of_int t * m))"

text \<open>
  \<^verbatim>\<open>
  let winner = null;
  if (homeScore > awayScore) winner = gameFromFirestore.homeTeam;
  else if (awayScore > homeScore) winner = gameFromFirestore.awayTeam;
  \<close>
\<close>

definition winner :: "Game \<Rightarrow> string option" where
  "winner g =
     (let homeScore = parseInt (home (score g));
          awayScore = parseInt (away (score g))
      in if js_gt homeScore awayScore then Some (homeTeam g)
         else if js_gt awayScore homeScore then Some (awayTeam g)
         else None)"

text \<open>Truthiness of \<^verbatim>\<open>winner\<close>: \<^verbatim>\<open>null\<close> and the empty string are falsy.\<close>

fun truthy :: "string option \<Rightarrow> bool" where
  "truthy None = False"
| "truthy (Some s) = (s \<noteq> [])"

text \<open>
  The body of the branch \<^verbatim>\<open>userPick.outcome === 'pending'\<close> for a completed game:
  \<^verbatim>\<open>
  updatedPicks[gameId].outcome =
      winner && userPick.pick === winner ? 'win' :
      winner ? 'loss' : 'pending';
  updatedPicks[gameId].winnings =
      updatedPicks[gameId].outcome === 'win' ? userPick.tier * payoutMultiplier[userPick.tier] : 0;
  \<close>
\<close>

definition settle_pick :: "Game \<Rightarrow> Pick \<Rightarrow> Pick" where
  "settle_pick g userPick =
     (let w = winner g;
          outcome' = (if truthy w \<and> Some (pick userPick) = w then win
                      else if truthy w then loss else pending);
          winnings' = (if outcome' = win then tier_payout (tier userPick) else Num 0)
      in userPick\<lparr>outcome := outcome', winnings := winnings'\<rparr>)"

text \<open>
  One iteration of \<^verbatim>\<open>for (const gameId in updatedPicks)\<close>. The state is
  \<^verbatim>\<open>updatedPicks\<close> (the entries already visited), \<^verbatim>\<open>totalCorrectPicks\<close>,
  \<^verbatim>\<open>totalWinnerBucksWonForThisEntry\<close> and \<^verbatim>\<open>allGamesInThisSubmissionCompleted\<close>.
\<close>

type_synonym settle_state = "(string \<times> Pick) list \<times> int \<times> real jsnum \<times> bool"

definition settle_iter :: "Game list \<Rightarrow> settle_state \<Rightarrow> string \<times> Pick \<Rightarrow> settle_state" where
  "settle_iter updatedWeekGames st entry =
     (case (st, entry) of ((ups, cnt, bucks, allc), (gid, userPick)) \<Rightarrow>
        (case find (\<lambda>g. id_game g = gid) updatedWeekGames of
           None \<Rightarrow> (ups @ [(gid, userPick)], cnt, bucks, False)
         | Some g \<Rightarrow>
             if completed g then
               (if outcome userPick = pending then
                  (let p' = settle_pick g userPick
                   in if outcome p' = win
                      then (ups @ [(gid, p')], cnt + 1, js_add bucks (winnings p'), allc)
                      else (ups @ [(gid, p')], cnt, bucks, allc))
                else if outcome userPick = win
                  then (ups @ [(gid, userPick)], cnt + 1, js_add bucks (winnings userPick), allc)
                  else (ups @ [(gid, userPick)], cnt, bucks, allc))
             else (ups @ [(gid, userPick)], cnt, bucks, False)))"

definition settle_loop :: "Game list \<Rightarrow> (string \<times> Pick) list \<Rightarrow> settle_state" where
  "settle_loop updatedWeekGames ps = foldl (settle_iter updatedWeekGames) ([], 0, Num 0, True) ps"

text \<open>
  The settlement of one prediction document that is not yet settled: the document after
  \<^verbatim>\<open>userPredictionUpdatesBatch.update\<close>, and the increment of the profile's
  \<^verbatim>\<open>winnerBucks\<close> when one is queued:
  \<^verbatim>\<open>
  if (allGamesInThisSubmissionCompleted &&
      totalWinnerBucksWonForThisEntry > (predictionData.totalWinnerBucksWon || 0)) {
      const netWinnings = totalWinnerBucksWonForThisEntry - (predictionData.totalWinnerBucksWon || 0);
  \<close>
\<close>

definition settle_prediction :: "Game list \<Rightarrow> Prediction \<Rightarrow> Prediction \<times> real jsnum option" where
  "settle_prediction updatedWeekGames predictionData =
     (case settle_loop updatedWeekGames (picks predictionData) of
        (ups, cnt, bucks, allc) \<Rightarrow>
          (predictionData\<lparr>picks := ups, totalCorrectPicks := cnt,
                           totalWinnerBucksWon := bucks, isSettled := allc\<rparr>,
           if allc \<and> js_gt bucks (or_zero (totalWinnerBucksWon predictionData))
           then Some (js_sub bucks (or_zero (totalWinnerBucksWon predictionData)))
           else None))"

text \<open>
  \<^verbatim>\<open>if (userPredictionsSnap.exists && !userPredictionsSnap.data().isSettled)\<close>: a settled
  document is not touched.
\<close>

definition settle_user :: "Game list \<Rightarrow> Prediction \<Rightarrow> Prediction \<times> real jsnum option" where
  "settle_user updatedWeekGames predictionData =
     (if isSettled predictionData then (predictionData, None)
      else settle_prediction updatedWeekGames predictionData)"

section \<open>Leaderboard Builder\<close>

text \<open>\<^verbatim>\<open>!==\<close> on numbers: \<^verbatim>\<open>NaN\<close> differs from everything, itself included.\<close>

fun js_neq :: "'a jsnum \<Rightarrow> 'a jsnum \<Rightarrow> bool" where
  "js_neq (Num a) (Num b) = (a \<noteq> b)"
| "js_neq _ _ = True"

fun js_abs :: "int jsnum \<Rightarrow> int jsnum" where
  "js_abs (Num a) = Num \<bar>a\<bar>"
| "js_abs NaN = NaN"

fun js_real :: "int jsnum \<Rightarrow> real jsnum" where
  "js_real (Num a) = Num (of_int a)"
| "js_real NaN = NaN"

text \<open>
  \<^verbatim>\<open>
  leaderboardEntries.sort((a, b) => {
      if (b.totalCorrectPicks !== a.totalCorrectPicks) return b.totalCorrectPicks - a.totalCorrectPicks;
      if (b.totalWinnerBucksWon !== a.totalWinnerBucksWon) return b.totalWinnerBucksWon - a.totalWinnerBucksWon;
      const actualTotal = updatedWeekData.actualTieBreakerTotalPoints;
      const diffA = Math.abs(a.tieBreakerPoints - actualTotal);
      const diffB = Math.abs(b.tieBreakerPoints - actualTotal);
      return diffA - diffB;
  });
  \<close>
\<close>

definition compare_entries :: "int jsnum \<Rightarrow> LeaderboardEntry \<Rightarrow> LeaderboardEntry \<Rightarrow> real jsnum" where
  "compare_entries actualTotal a b =
     (if entry_totalCorrectPicks b \<noteq> entry_totalCorrectPicks a
      then Num (of_int (entry_totalCorrectPicks b - entry_totalCorrectPicks a))
      else if js_neq (entry_totalWinnerBucksWon b) (entry_totalWinnerBucksWon a)
      then js_sub (entry_totalWinnerBucksWon b) (entry_totalWinnerBucksWon a)
      else (let diffA = js_abs (js_sub (Num (entry_tieBreakerPoints a)) actualTotal);
                diffB = js_abs (js_sub (Num (entry_tieBreakerPoints b)) actualTotal)
            in js_real (js_sub diffA diffB)))"

text \<open>
  The entry pushed for one user document, when its \<^verbatim>\<open>predictions[weekId]\<close> field is
  present and settled. An absent or empty username is replaced by
  \<^verbatim>\<open>`User_${userId.substring(0, 4)}`\<close>.
\<close>

definition leaderboard_entry :: "string \<Rightarrow> User \<Rightarrow> LeaderboardEntry option" where
  "leaderboard_entry wid u =
     (case doc_predictions u wid of
        None \<Rightarrow> None
      | Some predictionsData \<Rightarrow>
          if isSettled predictionsData
          then Some \<lparr>entry_id = user_id u,
                     entry_username =
                       (case doc_username u of
                          None \<Rightarrow> ''User_'' @ take 4 (user_id u)
                        | Some n \<Rightarrow> if n = [] then ''User_'' @ take 4 (user_id u) else n),
                     entry_totalCorrectPicks = totalCorrectPicks predictionsData,
                     entry_totalWinnerBucksWon = totalWinnerBucksWon predictionsData,
                     entry_tieBreakerPoints = tieBreakerPoints predictionsData\<rparr>
          else None)"

definition leaderboardEntries :: "string \<Rightarrow> User list \<Rightarrow> LeaderboardEntry list" where
  "leaderboardEntries wid us = List.map_filter (leaderboard_entry wid) us"

text \<open>
  The last phase of the scheduled sync, on the week document read back after its update:
  \<^verbatim>\<open>
  const allGamesInWeekCompleted = updatedWeekData.games.every(game => game.completed);
  if (allGamesInWeekCompleted && updatedWeekData.actualTieBreakerTotalPoints !== null) { ... }
  \<close>
\<close>

definition leaderboard_phase :: "WeekDoc \<Rightarrow> Store \<Rightarrow> Store" where
  "leaderboard_phase updatedWeekData store =
     (case actualTieBreakerTotalPoints updatedWeekData of
        None \<Rightarrow> store
      | Some actualTotal \<Rightarrow>
          if list_all completed (games updatedWeekData)
          then store\<lparr>leaderboards := (leaderboards store)(weekId updatedWeekData \<mapsto>
                  \<lparr>lb_weekId = weekId updatedWeekData,
                   entries = js_sort (compare_entries actualTotal)
                               (leaderboardEntries (weekId updatedWeekData) (users store)),
                   lb_actualTieBreakerTotalPoints = Some actualTotal\<rparr>)\<rparr>
          else store)"

section \<open>Orchestrator\<close>

text \<open>
  The loop over the user documents queues one update of the prediction document per
  unsettled submission and one increment of \<^verbatim>\<open>winnerBucks\<close> per credit. The two
  batches are committed after the loop, the predictions first. An update of a profile
  document that does not exist makes the profile batch fail as a whole; the exception
  ends the pass before the leaderboard phase.
\<close>

definition user_result :: "string \<Rightarrow> Game list \<Rightarrow> User \<Rightarrow> (Prediction \<times> real jsnum option) option" where
  "user_result wid gs u = map_option (settle_user gs) (predictions u wid)"

definition commit_prediction :: "string \<Rightarrow> Game list \<Rightarrow> User \<Rightarrow> User" where
  "commit_prediction wid gs u =
     (case user_result wid gs u of
        None \<Rightarrow> u
      | Some r \<Rightarrow> u\<lparr>predictions := (predictions u)(wid \<mapsto> fst r)\<rparr>)"

definition queued_increment :: "string \<Rightarrow> Game list \<Rightarrow> User \<Rightarrow> real jsnum option" where
  "queued_increment wid gs u =
     (case user_result wid gs u of None \<Rightarrow> None | Some r \<Rightarrow> snd r)"

definition commit_profile :: "real jsnum option \<Rightarrow> User \<Rightarrow> User" where
  "commit_profile increment u =
     (case increment of
        None \<Rightarrow> u
      | Some netWinnings \<Rightarrow>
          u\<lparr>profile := map_option (\<lambda>p. p\<lparr>winnerBucks := js_add (winnerBucks p) netWinnings\<rparr>)
                          (profile u)\<rparr>)"

text \<open>A user after both batches: the increment is the one queued from the documents read in the loop.\<close>

definition commit_user :: "string \<Rightarrow> Game list \<Rightarrow> User \<Rightarrow> User" where
  "commit_user wid gs u = commit_profile (queued_increment wid gs u) (commit_prediction wid gs u)"

definition profile_batch_fails :: "string \<Rightarrow> Game list \<Rightarrow> User list \<Rightarrow> bool" where
  "profile_batch_fails wid gs us =
     list_ex (\<lambda>u. queued_increment wid gs u \<noteq> None \<and> profile u = None) us"

text \<open>
  One run of \<^verbatim>\<open>syncNflDataAndSettle\<close> at local time \<open>now\<close>, with what the two provider
  requests return. Every exception is caught at the end of the function, so a failure
  leaves the store as it is at that point.
\<close>

definition syncNflDataAndSettle ::
  "DateTime \<Rightarrow> (ApiOdds list \<times> ApiScore list) fetch \<Rightarrow> Store \<Rightarrow> Store" where
  "syncNflDataAndSettle now api store =
     (let weekInfo = getCurrentNFLWeekInfo now in
      case api of
        NoApiKey \<Rightarrow> store
      | FetchFailed \<Rightarrow> store
      | Fetched (apiOddsData, apiScoresData) \<Rightarrow>
          (case nflWeeks store (weekId weekInfo) of
             None \<Rightarrow> store
           | Some currentWeekFirestoreData \<Rightarrow>
               (case game_merge currentWeekFirestoreData apiOddsData apiScoresData of
                  Inl e \<Rightarrow> store
                | Inr (updatedWeekGames, actual) \<Rightarrow>
                    (let updatedWeekData = week_doc_of weekInfo updatedWeekGames actual;
                         store1 = store\<lparr>nflWeeks := (nflWeeks store)(weekId weekInfo \<mapsto> updatedWeekData)\<rparr>;
                         store2 = store1\<lparr>users := map (commit_prediction (weekId weekInfo) updatedWeekGames)
                                                     (users store)\<rparr>
                     in if profile_batch_fails (weekId weekInfo) updatedWeekGames (users store)
                        then store2
                        else leaderboard_phase updatedWeekData
                               (store1\<lparr>users := map (commit_user (weekId weekInfo) updatedWeekGames)
                                                    (users store)\<rparr>)))))"

text \<open>
  One call of \<^verbatim>\<open>getNFLOdds\<close>. The games are sorted by
  \<^verbatim>\<open>new Date(a.commenceTime) - new Date(b.commenceTime)\<close> to find the last one; the
  document is written with \<^verbatim>\<open>set(..., { merge: true })\<close>, which replaces every field
  listed. A missing key and a failed request both end in an \<^verbatim>\<open>HttpsError\<close>.
\<close>

definition compare_commence :: "Game \<Rightarrow> Game \<Rightarrow> real jsnum" where
  "compare_commence a b = Num (of_int (commenceTime a - commenceTime b))"

definition getNFLOdds :: "DateTime \<Rightarrow> ApiOdds list fetch \<Rightarrow> Store \<Rightarrow> error + Store" where
  "getNFLOdds now api store =
     (case api of
        NoApiKey \<Rightarrow> Inl HttpsError
      | FetchFailed \<Rightarrow> Inl HttpsError
      | Fetched oddsData \<Rightarrow>
          (let weekInfo = getCurrentNFLWeekInfo now;
               gs = map normalize_event oddsData;
               sortedGames = js_sort compare_commence gs;
               weekInfo' = weekInfo\<lparr>tieBreakerGameId :=
                             (if sortedGames \<noteq> [] then Some (id_game (last sortedGames)) else None)\<rparr>
           in Inr (store\<lparr>nflWeeks := (nflWeeks store)(weekId weekInfo \<mapsto> week_doc_of weekInfo' gs None)\<rparr>)))"

section \<open>Derived notions\<close>

text \<open>
  What the loop does to one entry, read off \<open>settle_iter\<close>: the entry it stores, whether
  the referenced game was found completed, and whether the entry is counted as a win.
\<close>

definition settle_entry :: "Game list \<Rightarrow> string \<times> Pick \<Rightarrow> string \<times> Pick" where
  "settle_entry gs e =
     (case find (\<lambda>g. id_game g = fst e) gs of
        None \<Rightarrow> e
      | Some g \<Rightarrow> if completed g \<and> outcome (snd e) = pending
                  then (fst e, settle_pick g (snd e)) else e)"

definition entry_done :: "Game list \<Rightarrow> string \<times> Pick \<Rightarrow> bool" where
  "entry_done gs e =
     (case find (\<lambda>g. id_game g = fst e) gs of None \<Rightarrow> False | Some g \<Rightarrow> completed g)"

definition entry_win :: "Game list \<Rightarrow> string \<times> Pick \<Rightarrow> bool" where
  "entry_win gs e = (entry_done gs e \<and> outcome (snd (settle_entry gs e)) = win)"

text \<open>
  The \<^verbatim>\<open>completed\<close> flag the score part of the merge leaves on a stored game, read off
  \<open>merge_score\<close>.
\<close>

definition completed_after :: "ApiScore list \<Rightarrow> Game \<Rightarrow> bool" where
  "completed_after ss game =
     (case find (\<lambda>s. score_id s = id_game game) ss of
        None \<Rightarrow> completed game
      | Some s \<Rightarrow> score_completed s \<or> (scores s = None \<and> completed game))"


text \<open>The text of \<^verbatim>\<open>weekId\<close> for a date.\<close>

definition date_text :: "DateTime \<Rightarrow> string" where
  "date_text t = ''week-'' @ show_int (getFullYear t) @ ''-'' @ show_int (getMonth t + 1) @ ''-'' @
                 show_int (getDate t)"

text \<open>The balance, the stored total and the settled flag of each user, for one week.\<close>

definition ledger :: "string \<Rightarrow> Store \<Rightarrow> (real jsnum option \<times> (real jsnum \<times> bool) option) list" where
  "ledger wid store =
     map (\<lambda>u. (map_option winnerBucks (profile u),
                map_option (\<lambda>p. (totalWinnerBucksWon p, isSettled p)) (predictions u wid)))
         (users store)"

section \<open>Example data\<close>

definition no_odds :: Odds where
  "no_odds = \<lparr>moneyline = Some [], own_prices = []\<rparr>"

definition game_tied :: Game where
  "game_tied = \<lparr>id_game = ''g1'', homeTeam = ''Bears'', awayTeam = ''Lions'', commenceTime = 1000,
     odds = no_odds, score = \<lparr>home = Some (Num 17), away = Some (Num 17)\<rparr>, completed = True\<rparr>"

definition pick_bears :: Pick where
  "pick_bears = \<lparr>gameId = ''g1'', pick = ''Bears'', tier = 50, outcome = pending, winnings = Num 0\<rparr>"

definition game_home_win :: Game where
  "game_home_win = \<lparr>id_game = ''g1'', homeTeam = ''Bears'', awayTeam = ''Lions'', commenceTime = 1000,
     odds = no_odds, score = \<lparr>home = Some (Num 24), away = Some (Num 10)\<rparr>, completed = True\<rparr>"

definition game_two_open :: Game where
  "game_two_open = \<lparr>id_game = ''g2'', homeTeam = ''Jets'', awayTeam = ''Bills'', commenceTime = 2000,
     odds = no_odds, score = \<lparr>home = None, away = None\<rparr>, completed = False\<rparr>"

definition game_two_done :: Game where
  "game_two_done = \<lparr>id_game = ''g2'', homeTeam = ''Jets'', awayTeam = ''Bills'', commenceTime = 2000,
     odds = no_odds, score = \<lparr>home = Some (Num 14), away = Some (Num 20)\<rparr>, completed = True\<rparr>"

definition pick_bills :: Pick where
  "pick_bills = \<lparr>gameId = ''g2'', pick = ''Bills'', tier = 25, outcome = pending, winnings = Num 0\<rparr>"

definition prediction_two :: Prediction where
  "prediction_two = \<lparr>userId = ''u1'', picks = [(''g1'', pick_bears), (''g2'', pick_bills)],
     tieBreakerPoints = 45, isSettled = False, totalCorrectPicks = 0, totalWinnerBucksWon = Num 0\<rparr>"

definition user_one :: User where
  "user_one = \<lparr>user_id = ''u1'', profile = Some \<lparr>winnerBucks = Num 1\<rparr>,
     predictions = [''w1'' \<mapsto> prediction_two], doc_username = None, doc_predictions = Map.empty\<rparr>"

definition prediction_partial :: Prediction where
  "prediction_partial = \<lparr>userId = ''u1'',
     picks = [(''g1'', pick_bears\<lparr>outcome := win, winnings := Num 6\<rparr>), (''g2'', pick_bills)],
     tieBreakerPoints = 45, isSettled = False, totalCorrectPicks = 1, totalWinnerBucksWon = Num 6\<rparr>"


definition score_in_progress :: ApiScore where
  "score_in_progress = \<lparr>score_id = ''g1'', score_completed = False,
     scores = Some [\<lparr>team_name = ''Bears'', team_score = Some (Num 24)\<rparr>,
                    \<lparr>team_name = ''Lions'', team_score = Some (Num 10)\<rparr>]\<rparr>"

definition week_one :: WeekDoc where
  "week_one = \<lparr>weekId = ''week-2024-9-3'',
     bettingWindowStart = \<lparr>day = 19969, msec = 60000\<rparr>,
     bettingWindowEnd = \<lparr>day = 19971, msec = 61200000\<rparr>,
     picksRevealTime = \<lparr>day = 19972, msec = 43200000\<rparr>,
     tieBreakerGameId = Some ''g2'',
     games = [game_home_win, game_two_open],
     actualTieBreakerTotalPoints = None\<rparr>"

definition now_tuesday :: DateTime where
  "now_tuesday = \<lparr>day = 19969, msec = 43200000\<rparr>"

definition now_wednesday :: DateTime where
  "now_wednesday = \<lparr>day = 19970, msec = 43200000\<rparr>"

definition store_one :: Store where
  "store_one = \<lparr>nflWeeks = [''week-2024-9-3'' \<mapsto> week_one], users = [], leaderboards = Map.empty\<rparr>"

definition event_no_bookmakers :: ApiOdds where
  "event_no_bookmakers = \<lparr>odds_id = ''g3'', home_team = ''Colts'', away_team = ''Texans'',
     commence_time = 3000, bookmakers = None\<rparr>"

definition event_one :: ApiOdds where
  "event_one = \<lparr>odds_id = ''g1'', home_team = ''Bears'', away_team = ''Lions'',
     commence_time = 1000, bookmakers = Some []\<rparr>"

definition score_two_final :: ApiScore where
  "score_two_final = \<lparr>score_id = ''g2'', score_completed = True,
     scores = Some [\<lparr>team_name = ''Jets'', team_score = Some (Num 14)\<rparr>,
                    \<lparr>team_name = ''Bills'', team_score = Some (Num 20)\<rparr>]\<rparr>"




definition user_week :: User where
  "user_week = user_one\<lparr>predictions := [''week-2024-9-3'' \<mapsto> prediction_two]\<rparr>"

definition user_no_profile :: User where
  "user_no_profile = \<lparr>user_id = ''u2'', profile = None,
     predictions = [''week-2024-9-3'' \<mapsto> prediction_two], doc_username = None,
     doc_predictions = Map.empty\<rparr>"

definition store_two :: Store where
  "store_two = \<lparr>nflWeeks = [''week-2024-9-3'' \<mapsto> week_one], users = [user_week],
     leaderboards = Map.empty\<rparr>"

definition store_three :: Store where
  "store_three = \<lparr>nflWeeks = [''week-2024-9-3'' \<mapsto> week_one], users = [user_week, user_no_profile],
     leaderboards = Map.empty\<rparr>"

definition now_thursday :: DateTime where
  "now_thursday = \<lparr>day = 19971, msec = 57600000\<rparr>"

section \<open>Settlement of one pick\<close>

lemma payoutMultiplier_table:
  "payoutMultiplier 25 = Some 0.1" "payoutMultiplier 50 = Some 0.12" "payoutMultiplier 100 = Some 0.15"
  by (simp_all add: payoutMultiplier_def)

lemma settle_iter_eq:
  "settle_iter gs (ups, cnt, bucks, allc) e =
     (ups @ [settle_entry gs e],
      (if entry_win gs e then cnt + 1 else cnt),
      (if entry_win gs e then js_add bucks (winnings (snd (settle_entry gs e))) else bucks),
      allc \<and> entry_done gs e)"
  by (cases e)
     (simp add: settle_iter_def settle_entry_def entry_done_def entry_win_def Let_def
        split: option.split)

lemma settle_fold:
  "foldl (settle_iter gs) (ups, cnt, bucks, allc) ps =
     (ups @ map (settle_entry gs) ps,
      cnt + int (length (filter (entry_win gs) ps)),
      foldl js_add bucks (map (\<lambda>e. winnings (snd (settle_entry gs e))) (filter (entry_win gs) ps)),
      allc \<and> list_all (entry_done gs) ps)"
proof (induction ps arbitrary: ups cnt bucks allc)
  case Nil
  show ?case by simp
next
  case (Cons e ps)
  show ?case
    by (simp only: foldl.simps settle_iter_eq Cons.IH) simp
qed

lemma settle_loop_eq:
  "settle_loop gs ps =
     (map (settle_entry gs) ps,
      int (length (filter (entry_win gs) ps)),
      foldl js_add (Num 0) (map (\<lambda>e. winnings (snd (settle_entry gs e))) (filter (entry_win gs) ps)),
      list_all (entry_done gs) ps)"
  by (simp add: settle_loop_def settle_fold)

text \<open>
  C1, as stated, fails: a pending pick on a completed game whose scores are equal is not
  set to \<^verbatim>\<open>'loss'\<close>. The code leaves its outcome \<^verbatim>\<open>'pending'\<close>
  (\<^verbatim>\<open>winner ? 'loss' : 'pending'\<close>), with winnings 0.
\<close>

theorem settle_tie_counterexample:
  "completed game_tied \<and> outcome pick_bears = pending
   \<and> parseInt (home (score game_tied)) = parseInt (away (score game_tied))
   \<and> settle_loop [game_tied] [(''g1'', pick_bears)] = ([(''g1'', pick_bears)], 0, Num 0, True)
   \<and> outcome (snd (hd (fst (settle_loop [game_tied] [(''g1'', pick_bears)])))) \<noteq> loss"
  by (simp add: settle_loop_def settle_iter_def settle_pick_def winner_def game_tied_def pick_bears_def)

text \<open>
  C1, amended: for every pick of a submission whose outcome is \<^verbatim>\<open>'pending'\<close> and whose
  game is found completed with integer scores and non-empty team names, the loop stores
  the pick with: outcome \<^verbatim>\<open>'win'\<close> and winnings \<^verbatim>\<open>tier * payoutMultiplier[tier]\<close>
  when the strictly higher-scoring team is the picked one (25 gives 25 * 0.10, 50 gives
  50 * 0.12, 100 gives 100 * 0.15); outcome \<^verbatim>\<open>'loss'\<close> and winnings 0 when there is a
  strictly higher-scoring team and it is not the picked one; and outcome
  \<^verbatim>\<open>'pending'\<close> with winnings 0 when the scores are equal.
\<close>

theorem settle_pending_pick:
  assumes "i < length ps" and "ps ! i = (gid, p)"
    and "find (\<lambda>g. id_game g = gid) gs = Some g" and "completed g"
    and "outcome p = pending"
    and "home (score g) = Some (Num h)" and "away (score g) = Some (Num a)"
    and "homeTeam g \<noteq> []" and "awayTeam g \<noteq> []"
  shows "fst (settle_loop gs ps) ! i =
           (gid, p\<lparr>outcome := (if a < h then (if pick p = homeTeam g then win else loss)
                                else if h < a then (if pick p = awayTeam g then win else loss)
                                else pending),
                    winnings := (if (a < h \<and> pick p = homeTeam g) \<or> (h < a \<and> pick p = awayTeam g)
                                 then tier_payout (tier p) else Num 0)\<rparr>)
         \<and> tier_payout 25 = Num (25 * 0.1) \<and> tier_payout 50 = Num (50 * 0.12)
         \<and> tier_payout 100 = Num (100 * 0.15)"
proof -
  have "fst (settle_loop gs ps) ! i = settle_entry gs (ps ! i)"
    using assms(1) by (simp add: settle_loop_eq)
  also have "\<dots> = (gid, settle_pick g p)"
    using assms by (simp add: settle_entry_def)
  finally have "fst (settle_loop gs ps) ! i = (gid, settle_pick g p)" .
  moreover have "settle_pick g p =
     p\<lparr>outcome := (if a < h then (if pick p = homeTeam g then win else loss)
                                else if h < a then (if pick p = awayTeam g then win else loss)
                                else pending),
                    winnings := (if (a < h \<and> pick p = homeTeam g) \<or> (h < a \<and> pick p = awayTeam g)
                                 then tier_payout (tier p) else Num 0)\<rparr>"
    using assms(6-9) by (auto simp add: settle_pick_def winner_def Let_def)
  moreover have "tier_payout 25 = Num (25 * 0.1) \<and> tier_payout 50 = Num (50 * 0.12)
         \<and> tier_payout 100 = Num (100 * 0.15)"
    by (simp add: tier_payout_def payoutMultiplier_def)
  ultimately show ?thesis by simp
qed

theorem settle_pending_pick_witness:
  "fst (settle_loop [game_home_win] [(''g1'', pick_bears)]) ! 0 =
     (''g1'', pick_bears\<lparr>outcome := win, winnings := Num 6\<rparr>)"
  using settle_pending_pick [of 0 "[(''g1'', pick_bears)]" "''g1''" pick_bears "[game_home_win]"
          game_home_win 24 10]
  by (simp add: game_home_win_def pick_bears_def)

section \<open>Repeated settlement\<close>









lemmas example_defs = game_home_win_def game_tied_def game_two_open_def game_two_done_def
  pick_bears_def pick_bills_def prediction_two_def prediction_partial_def no_odds_def

lemmas settle_defs = settle_user_def settle_prediction_def settle_loop_def settle_iter_def
  settle_pick_def winner_def tier_payout_def payoutMultiplier_def







section \<open>Settled submissions are terminal\<close>










section \<open>Crediting the profile\<close>

lemmas commit_defs = commit_user_def commit_profile_def commit_prediction_def queued_increment_def
  user_result_def

text \<open>
  Two runs over one submission with two winning picks: in the first only the first game
  is completed, in the second both are.
\<close>

lemma credit_two_runs:
  "map_option totalWinnerBucksWon (predictions user_one ''w1'') = Some (Num 0)
   \<and> map_option isSettled (predictions user_one ''w1'') = Some False
   \<and> map_option totalWinnerBucksWon
        (predictions (commit_user ''w1'' [game_home_win, game_two_open] user_one) ''w1'') = Some (Num 6)
   \<and> profile user_one = Some \<lparr>winnerBucks = Num 1\<rparr>
   \<and> profile (commit_user ''w1'' [game_home_win, game_two_open] user_one) = Some \<lparr>winnerBucks = Num 1\<rparr>
   \<and> map_option totalWinnerBucksWon
        (predictions (commit_user ''w1'' [game_home_win, game_two_done]
           (commit_user ''w1'' [game_home_win, game_two_open] user_one)) ''w1'') = Some (Num 8.5)
   \<and> profile (commit_user ''w1'' [game_home_win, game_two_done]
           (commit_user ''w1'' [game_home_win, game_two_open] user_one)) = Some \<lparr>winnerBucks = Num 3.5\<rparr>"
  by (simp add: user_one_def commit_defs example_defs settle_defs)

section \<open>Game Merge and the completed flag\<close>

lemma merge_score_result:
  assumes "merge_score tb ss actual game = Inr (g1, actual1)"
  shows "id_game g1 = id_game game \<and> completed g1 = completed_after ss game"
  using assms
  by (auto simp add: merge_score_def completed_after_def Let_def split: option.splits if_splits)

lemma merge_odds_result:
  assumes "merge_odds os g1 = Inr g2"
  shows "id_game g2 = id_game g1 \<and> completed g2 = completed g1"
  using assms
  by (auto simp add: merge_odds_def split: option.splits sum.splits)

lemma merge_games_result:
  assumes "merge_games tb ss os actual gs = Inr (gs', actual')"
  shows "length gs' = length gs
     \<and> (\<forall>i < length gs. id_game (gs' ! i) = id_game (gs ! i)
           \<and> completed (gs' ! i) = completed_after ss (gs ! i))"
  using assms
proof (induction gs arbitrary: actual gs' actual')
  case Nil
  then show ?case by simp
next
  case (Cons game rest)
  from Cons.prems obtain g1 actual1 g2 rest' where
    a: "merge_score tb ss actual game = Inr (g1, actual1)" and
    b: "merge_odds os g1 = Inr g2" and
    c: "merge_games tb ss os actual1 rest = Inr (rest', actual')" and
    d: "gs' = g2 # rest'"
    by (auto split: sum.splits prod.splits)
  have ih: "length rest' = length rest"
    "\<And>i. i < length rest \<Longrightarrow> id_game (rest' ! i) = id_game (rest ! i)
           \<and> completed (rest' ! i) = completed_after ss (rest ! i)"
    using Cons.IH [OF c] by simp_all
  have h: "id_game g2 = id_game game" "completed g2 = completed_after ss game"
    using merge_score_result [OF a] merge_odds_result [OF b] by simp_all
  have "id_game (gs' ! i) = id_game ((game # rest) ! i)
           \<and> completed (gs' ! i) = completed_after ss ((game # rest) ! i)"
    if "i < length (game # rest)" for i
  proof (cases i)
    case 0
    then show ?thesis using d h by simp
  next
    case (Suc k)
    then show ?thesis using d ih(2) [of k] that by simp
  qed
  then show ?case using d ih(1) by simp
qed

lemma append_new_games_prefix:
  "append_new_games os gs = Inr gs' \<Longrightarrow> \<exists>new. gs' = gs @ new"
proof (induction os arbitrary: gs)
  case Nil
  then show ?case by simp
next
  case (Cons a os)
  then show ?case
    by (fastforce split: if_splits sum.splits)
qed

text \<open>
  C4, as stated, fails: a stored game with \<^verbatim>\<open>completed\<close> true, merged with a score
  record of the provider that is not marked completed and carries scores, is written
  with \<^verbatim>\<open>completed\<close> false (\<^verbatim>\<open>game.completed = false\<close>).
\<close>

theorem merge_regresses_completed:
  "completed (games week_one ! 0)
   \<and> game_merge week_one [] [score_in_progress] =
       Inr ([game_home_win\<lparr>completed := False\<rparr>, game_two_open], None)"
  by (simp add: game_merge_def week_one_def merge_score_def merge_odds_def live_score_def
        score_in_progress_def example_defs Let_def)

text \<open>
  C4, amended: when Game Merge succeeds, a stored game whose \<^verbatim>\<open>completed\<close> flag is true
  keeps its place and identifier, and its flag stays true exactly when the provider has
  no score record for it, or the (first) record is marked completed, or the record has no
  scores list; a record that is not marked completed and carries a scores list sets the
  flag to false. Odds records never change the flag.
\<close>

theorem merge_completed_flag:
  assumes "game_merge doc os ss = Inr (gs', actual')"
    and "i < length (games doc)" and "completed (games doc ! i)"
  shows "i < length gs' \<and> id_game (gs' ! i) = id_game (games doc ! i)
     \<and> completed (gs' ! i) =
         (case find (\<lambda>s. score_id s = id_game (games doc ! i)) ss of
            None \<Rightarrow> True
          | Some s \<Rightarrow> score_completed s \<or> scores s = None)"
proof -
  from assms(1) obtain merged where
    m: "merge_games (tieBreakerGameId doc) ss os (or_null (actualTieBreakerTotalPoints doc))
          (games doc) = Inr (merged, actual')" and
    a: "append_new_games os merged = Inr gs'"
    by (auto simp add: game_merge_def split: sum.splits prod.splits)
  from append_new_games_prefix [OF a] obtain new where n: "gs' = merged @ new" ..
  note r = merge_games_result [OF m]
  have l: "i < length merged" using r assms(2) by simp
  then have "gs' ! i = merged ! i" using n by (simp add: nth_append)
  with r l assms(2,3) n show ?thesis
    by (auto simp add: completed_after_def split: option.split)
qed

theorem merge_completed_flag_witness:
  "game_merge week_one [] [score_in_progress\<lparr>score_completed := True\<rparr>] =
       Inr ([game_home_win, game_two_open], None)"
  using merge_completed_flag [of week_one "[]" "[score_in_progress\<lparr>score_completed := True\<rparr>]"
          "[game_home_win, game_two_open]" None 0]
  by (simp add: game_merge_def week_one_def merge_score_def merge_odds_def live_score_def
        score_in_progress_def example_defs Let_def)

section \<open>The week clock on three days\<close>

lemma YearFromDay_19969: "YearFromDay 19969 = 2024"
  by (simp add: YearFromDay_def year_down.simps DayFromYear_def)

lemma YearFromDay_19976: "YearFromDay 19976 = 2024"
  by (simp add: YearFromDay_def year_down.simps DayFromYear_def)

lemma show_nat_examples:
  "show_nat 2024 = ''2024''" "show_nat 9 = ''9''" "show_nat 3 = ''3''" "show_nat 10 = ''10''"
  by (simp_all add: show_nat.simps digit_char_def)

lemmas clock_defs = getCurrentNFLWeekInfo_def upcomingTuesday_def Let_def getDay_def addDays_def
  setHours_def getFullYear_def getMonth_def getDate_def DayWithinYear_def DayFromYear_def
  InLeapYear_def MonthFromDay_def month_start_def show_int_def

lemma week_info_tuesday:
  "getCurrentNFLWeekInfo now_tuesday =
     \<lparr>weekId = ''week-2024-9-3'',
      bettingWindowStart = \<lparr>day = 19969, msec = 60000\<rparr>,
      bettingWindowEnd = \<lparr>day = 19971, msec = 61200000\<rparr>,
      picksRevealTime = \<lparr>day = 19972, msec = 43200000\<rparr>,
      tieBreakerGameId = None\<rparr>"
  by (simp add: now_tuesday_def clock_defs YearFromDay_19969 show_nat_examples)

lemma week_info_wednesday:
  "getCurrentNFLWeekInfo now_wednesday =
     \<lparr>weekId = ''week-2024-9-10'',
      bettingWindowStart = \<lparr>day = 19976, msec = 60000\<rparr>,
      bettingWindowEnd = \<lparr>day = 19978, msec = 61200000\<rparr>,
      picksRevealTime = \<lparr>day = 19979, msec = 43200000\<rparr>,
      tieBreakerGameId = None\<rparr>"
  by (simp add: now_wednesday_def clock_defs YearFromDay_19976 show_nat_examples)

lemma week_info_thursday:
  "getCurrentNFLWeekInfo now_thursday =
     \<lparr>weekId = ''week-2024-9-10'',
      bettingWindowStart = \<lparr>day = 19976, msec = 60000\<rparr>,
      bettingWindowEnd = \<lparr>day = 19978, msec = 61200000\<rparr>,
      picksRevealTime = \<lparr>day = 19979, msec = 43200000\<rparr>,
      tieBreakerGameId = None\<rparr>"
  by (simp add: now_thursday_def clock_defs YearFromDay_19976 show_nat_examples)

section \<open>The tie-breaker game of a week\<close>

lemmas merge_defs = game_merge_def merge_score_def merge_odds_def live_score_def first_h2h_def
  new_game_def h2h_def moneyline_of_def week_doc_of_def

text \<open>
  C3: the code does not keep \<^verbatim>\<open>tieBreakerGameId\<close>. A week is stored with tie-breaker
  game \<^verbatim>\<open>g2\<close>. One scheduled pass (here with empty provider answers) writes the week
  document from \<^verbatim>\<open>{ ...weekInfo, ... }\<close>, where \<^verbatim>\<open>weekInfo.tieBreakerGameId\<close> is
  \<^verbatim>\<open>null\<close>, so the stored value becomes \<^verbatim>\<open>null\<close>. A repeated odds fetch recomputes it
  from the fresh list: \<^verbatim>\<open>g1\<close> when the provider lists only that game, \<^verbatim>\<open>null\<close> when
  it lists none.
\<close>

theorem tiebreaker_overwritten:
  "map_option tieBreakerGameId (nflWeeks store_one ''week-2024-9-3'') = Some (Some ''g2'')
   \<and> map_option tieBreakerGameId
        (nflWeeks (syncNflDataAndSettle now_tuesday (Fetched ([], [])) store_one) ''week-2024-9-3'')
       = Some None
   \<and> map_sum id (\<lambda>s. map_option tieBreakerGameId (nflWeeks s ''week-2024-9-3''))
        (getNFLOdds now_tuesday (Fetched [event_one]) store_one)
       = Inr (Some (Some ''g1''))
   \<and> map_sum id (\<lambda>s. map_option tieBreakerGameId (nflWeeks s ''week-2024-9-3''))
        (getNFLOdds now_tuesday (Fetched []) store_one)
       = Inr (Some None)"
  by (simp add: week_info_tuesday syncNflDataAndSettle_def getNFLOdds_def store_one_def week_one_def
        merge_defs example_defs leaderboard_phase_def profile_batch_fails_def
        js_sort_def normalize_event_def event_one_def)

text \<open>Every scheduled pass that rewrites the week document stores \<^verbatim>\<open>null\<close> there.\<close>

lemma nflWeeks_leaderboard_phase: "nflWeeks (leaderboard_phase w s) = nflWeeks s"
  by (simp add: leaderboard_phase_def split: option.split)

lemma sync_nulls_tiebreaker:
  assumes "nflWeeks store (weekId (getCurrentNFLWeekInfo now)) = Some doc"
    and "game_merge doc os ss = Inr r"
  shows "map_option tieBreakerGameId
           (nflWeeks (syncNflDataAndSettle now (Fetched (os, ss)) store)
              (weekId (getCurrentNFLWeekInfo now))) = Some None"
  using assms
  by (cases r)
     (simp add: syncNflDataAndSettle_def Let_def nflWeeks_leaderboard_phase week_doc_of_def
        getCurrentNFLWeekInfo_def)

section \<open>Odds records without bookmakers\<close>

text \<open>The on-demand path gives an empty mapping in each of the three cases.\<close>

lemma normalize_event_without_market:
  assumes "bookmakers event = None \<or> bookmakers event = Some []
           \<or> (\<exists>b bs. bookmakers event = Some (b # bs) \<and> h2h b = None)"
  shows "odds (normalize_event event) = \<lparr>moneyline = Some [], own_prices = []\<rparr>"
  using assms by (auto simp add: normalize_event_def)

text \<open>
  C9: for a provider record without a \<^verbatim>\<open>bookmakers\<close> property the on-demand path gives
  an empty \<^verbatim>\<open>odds.moneyline\<close>, but the scheduled path raises a \<^verbatim>\<open>TypeError\<close>
  (\<^verbatim>\<open>bookmakers[0]\<close> of \<^verbatim>\<open>undefined\<close>), both for a stored game and for a new one;
  the pass ends without writing anything. With an empty \<^verbatim>\<open>bookmakers\<close> list the game
  appended by the scheduled path has no \<^verbatim>\<open>moneyline\<close> property.
\<close>

theorem missing_bookmakers_aborts_sync:
  "odds (normalize_event event_no_bookmakers) = \<lparr>moneyline = Some [], own_prices = []\<rparr>
   \<and> new_game event_no_bookmakers = Inl TypeError
   \<and> merge_odds [event_one\<lparr>bookmakers := None\<rparr>] game_home_win = Inl TypeError
   \<and> game_merge week_one [event_no_bookmakers] [] = Inl TypeError
   \<and> syncNflDataAndSettle now_tuesday (Fetched ([event_no_bookmakers], [])) store_one = store_one
   \<and> map_sum id (\<lambda>g. moneyline (odds g)) (new_game (event_no_bookmakers\<lparr>bookmakers := Some []\<rparr>))
       = Inr None"
  by (simp add: week_info_tuesday syncNflDataAndSettle_def store_one_def week_one_def
        merge_defs example_defs normalize_event_def event_one_def event_no_bookmakers_def)

section \<open>When a leaderboard is written\<close>

lemma leaderboards_leaderboard_phase:
  "leaderboards (leaderboard_phase w s) wid \<noteq> leaderboards s wid \<Longrightarrow>
   wid = weekId w \<and> list_all completed (games w) \<and> actualTieBreakerTotalPoints w \<noteq> None"
  by (auto simp add: leaderboard_phase_def split: option.splits if_splits)

text \<open>The on-demand fetch never touches a leaderboard.\<close>

lemma getNFLOdds_keeps_leaderboards:
  "getNFLOdds now api store = Inr s \<Longrightarrow> leaderboards s = leaderboards store"
  by (auto simp add: getNFLOdds_def Let_def split: fetch.splits)

text \<open>
  C8: if a scheduled pass changes the leaderboard document of some week, that week is the
  current one and the week document the pass has just written has every game completed
  and a tie-breaker total that is not \<^verbatim>\<open>null\<close>. So while one of the two conditions fails,
  no pass writes a leaderboard.
\<close>

theorem leaderboard_only_when_complete:
  assumes "leaderboards (syncNflDataAndSettle now api store) wid \<noteq> leaderboards store wid"
  shows "wid = weekId (getCurrentNFLWeekInfo now)
     \<and> (\<exists>doc. nflWeeks (syncNflDataAndSettle now api store) wid = Some doc
            \<and> list_all completed (games doc) \<and> actualTieBreakerTotalPoints doc \<noteq> None)"
proof -
  let ?wi = "getCurrentNFLWeekInfo now"
  from assms obtain os ss cur gs actual where
    api: "api = Fetched (os, ss)" and
    cur: "nflWeeks store (weekId ?wi) = Some cur" and
    gm: "game_merge cur os ss = Inr (gs, actual)" and
    ok: "\<not> profile_batch_fails (weekId ?wi) gs (users store)"
    by (auto simp add: syncNflDataAndSettle_def Let_def
          split: fetch.splits option.splits sum.splits prod.splits if_splits)
  let ?doc = "week_doc_of ?wi gs actual"
  let ?s = "store\<lparr>nflWeeks := (nflWeeks store)(weekId ?wi \<mapsto> ?doc),
                   users := map (commit_user (weekId ?wi) gs) (users store)\<rparr>"
  have eq: "syncNflDataAndSettle now api store = leaderboard_phase ?doc ?s"
    using api cur gm ok by (simp add: syncNflDataAndSettle_def Let_def)
  have w: "weekId ?doc = weekId ?wi" by (simp add: week_doc_of_def)
  have "leaderboards (leaderboard_phase ?doc ?s) wid \<noteq> leaderboards ?s wid"
    using assms eq by simp
  from leaderboards_leaderboard_phase [OF this]
  have c: "wid = weekId ?wi" "list_all completed (games ?doc)"
    "actualTieBreakerTotalPoints ?doc \<noteq> None"
    using w by simp_all
  have "nflWeeks (syncNflDataAndSettle now api store) wid = Some ?doc"
    using eq c(1) by (simp add: nflWeeks_leaderboard_phase)
  with c show ?thesis by blast
qed

theorem leaderboard_only_when_complete_witness:
  "leaderboards store_one ''week-2024-9-3'' = None
   \<and> leaderboards (syncNflDataAndSettle now_tuesday (Fetched ([], [score_two_final])) store_one)
        ''week-2024-9-3''
       = Some \<lparr>lb_weekId = ''week-2024-9-3'', entries = [],
               lb_actualTieBreakerTotalPoints = Some (Num 34)\<rparr>
   \<and> map_option (\<lambda>d. (map completed (games d), actualTieBreakerTotalPoints d))
        (nflWeeks (syncNflDataAndSettle now_tuesday (Fetched ([], [score_two_final])) store_one)
           ''week-2024-9-3'')
       = Some ([True, True], Some (Num 34))"
  using leaderboard_only_when_complete [of now_tuesday "Fetched ([], [score_two_final])" store_one
          "''week-2024-9-3''"]
  by (simp add: week_info_tuesday syncNflDataAndSettle_def store_one_def week_one_def
        merge_defs example_defs leaderboard_phase_def profile_batch_fails_def
        score_two_final_def leaderboardEntries_def List.map_filter_simps js_sort_def)

section \<open>Order of the leaderboard\<close>












section \<open>The week of an instant\<close>

lemma digit_char_inj: "n < 10 \<Longrightarrow> m < 10 \<Longrightarrow> digit_char n = digit_char m \<Longrightarrow> n = m"
proof -
  assume a: "n < 10" "m < 10" "digit_char n = digit_char m"
  have "distinct ''0123456789''" by simp
  moreover have "n < length ''0123456789''" "m < length ''0123456789''" using a by simp_all
  ultimately show "n = m"
    using a(3) unfolding digit_char_def by (simp only: nth_eq_iff_index_eq)
qed

lemma digit_char_no_dash: "n < 10 \<Longrightarrow> digit_char n \<noteq> CHR ''-''"
proof -
  assume "n < 10"
  then have "n < length ''0123456789''" by simp
  then have "''0123456789'' ! n \<in> set ''0123456789''" by (rule nth_mem)
  then show ?thesis unfolding digit_char_def by auto
qed

lemma show_nat_nonempty: "show_nat n \<noteq> []"
  by (subst show_nat.simps) simp

lemma show_nat_no_dash: "CHR ''-'' \<notin> set (show_nat n)"
proof (induction n rule: show_nat.induct)
  case (1 n)
  show ?case
  proof (cases "n < 10")
    case True
    then show ?thesis
      using digit_char_no_dash [of n] by (subst show_nat.simps) auto
  next
    case False
    have "n mod 10 < 10" by simp
    then have "digit_char (n mod 10) \<noteq> CHR ''-''" by (rule digit_char_no_dash)
    then show ?thesis
      using False "1.IH" by (subst show_nat.simps) auto
  qed
qed

lemma show_nat_inj: "show_nat n = show_nat m \<Longrightarrow> n = m"
proof (induction n arbitrary: m rule: show_nat.induct)
  case (1 n)
  show ?case
  proof (cases "n < 10")
    case n: True
    show ?thesis
    proof (cases "m < 10")
      case True
      then show ?thesis
        using n "1.prems" digit_char_inj [of n m]
        by (simp add: show_nat.simps [of n] show_nat.simps [of m])
    next
      case False
      then show ?thesis
        using n "1.prems" show_nat_nonempty [of "m div 10"]
        by (simp add: show_nat.simps [of n] show_nat.simps [of m])
    qed
  next
    case n: False
    show ?thesis
    proof (cases "m < 10")
      case True
      then show ?thesis
        using n "1.prems" show_nat_nonempty [of "n div 10"]
        by (simp add: show_nat.simps [of n] show_nat.simps [of m])
    next
      case False
      have e: "show_nat (n div 10) = show_nat (m div 10)"
        "digit_char (n mod 10) = digit_char (m mod 10)"
        using n False "1.prems"
        by (simp_all add: show_nat.simps [of n] show_nat.simps [of m])
      have "n div 10 = m div 10" using "1.IH" [OF n e(1)] .
      moreover have "n mod 10 = m mod 10"
        using digit_char_inj [OF _ _ e(2)] by simp
      ultimately show ?thesis by (metis div_mult_mod_eq)
    qed
  qed
qed

lemma split_at_dash:
  assumes "CHR ''-'' \<notin> set xs" and "CHR ''-'' \<notin> set xs'"
    and "xs @ CHR ''-'' # ys = xs' @ CHR ''-'' # ys'"
  shows "xs = xs' \<and> ys = ys'"
proof -
  have "takeWhile (\<lambda>c. c \<noteq> CHR ''-'') (xs @ CHR ''-'' # ys) = xs"
    using assms(1) by (subst takeWhile_append2) auto
  moreover have "takeWhile (\<lambda>c. c \<noteq> CHR ''-'') (xs' @ CHR ''-'' # ys') = xs'"
    using assms(2) by (subst takeWhile_append2) auto
  ultimately have "xs = xs'" using assms(3) by simp
  then show ?thesis using assms(3) by simp
qed

lemma date_text_inj:
  assumes "''week-'' @ show_nat y @ ''-'' @ show_nat m @ ''-'' @ show_nat d
         = ''week-'' @ show_nat y' @ ''-'' @ show_nat m' @ ''-'' @ show_nat d'"
  shows "y = y' \<and> m = m' \<and> d = d'"
proof -
  from assms have
    "show_nat y @ CHR ''-'' # (show_nat m @ CHR ''-'' # show_nat d)
   = show_nat y' @ CHR ''-'' # (show_nat m' @ CHR ''-'' # show_nat d')"
    by simp
  from split_at_dash [OF show_nat_no_dash show_nat_no_dash this]
  have 1: "show_nat y = show_nat y'"
    and 2: "show_nat m @ CHR ''-'' # show_nat d = show_nat m' @ CHR ''-'' # show_nat d'"
    by simp_all
  from split_at_dash [OF show_nat_no_dash show_nat_no_dash 2]
  have "show_nat m = show_nat m'" "show_nat d = show_nat d'" by simp_all
  with 1 show ?thesis by (simp add: show_nat_inj)
qed

lemma DayFromYear_1970: "DayFromYear 1970 = 0"
  by (simp add: DayFromYear_def)

lemma year_down_bounds:
  "1970 \<le> y \<Longrightarrow> 0 \<le> d \<Longrightarrow> 1970 \<le> year_down y d \<and> DayFromYear (year_down y d) \<le> d"
proof (induction y d rule: year_down.induct)
  case (1 y d)
  show ?case
  proof (cases "DayFromYear y \<le> d")
    case True
    then show ?thesis using "1.prems" by (simp add: year_down.simps [of y d])
  next
    case False
    then have "y \<noteq> 1970" using "1.prems" DayFromYear_1970 by auto
    then have "1970 \<le> y - 1" using "1.prems" by simp
    then show ?thesis
      using False "1.IH" "1.prems" by (simp add: year_down.simps [of y d])
  qed
qed

lemma getFullYear_bounds:
  "1970 \<le> getFullYear t \<and> 0 \<le> DayWithinYear t"
proof -
  have "(0::int) \<le> int (day t) div 365" by simp
  then have "1970 \<le> 1970 + int (day t) div 365" by linarith
  from year_down_bounds [OF this, of "int (day t)"]
  show ?thesis by (simp add: getFullYear_def DayWithinYear_def YearFromDay_def)
qed

text \<open>\<open>YearFromDay\<close> is the year that contains the day, as \<open>YearFromTime\<close> requires.\<close>

lemma DayFromYear_lower: 
  assumes "0 \<le> j"
  shows "365 * j \<le> DayFromYear (1970 + j)"
proof -
  define a where "a = (j + 1) div 4"
  define b where "b = (j + 69) div 100"
  define c where "c = (j + 369) div 400"
  have "1970 + j - 1970 = j" "1970 + j - 1969 = j + 1" "1970 + j - 1901 = j + 69"
    "1970 + j - 1601 = j + 369"
    by simp_all
  then have d: "DayFromYear (1970 + j) = 365 * j + a - b + c"
    by (simp only: DayFromYear_def a_def b_def c_def)
  have c0: "0 \<le> c" unfolding c_def using assms by (intro pos_imp_zdiv_nonneg_iff [THEN iffD2]) simp_all
  have a0: "0 \<le> a" unfolding a_def using assms by (intro pos_imp_zdiv_nonneg_iff [THEN iffD2]) simp_all
  have "b \<le> a"
  proof (cases "2 \<le> j")
    case True
    have "(j + 69) div 100 \<le> (25 * (j + 1)) div 100"
      using True by (intro zdiv_mono1) simp_all
    also have "(25 * (j + 1)) div 100 = (25 * (j + 1)) div (25 * 4)" by simp
    also have "\<dots> = (j + 1) div 4" by (rule div_mult_mult1) simp
    finally show ?thesis by (simp only: a_def b_def)
  next
    case False
    with assms have "j = 0 \<or> j = 1" by linarith
    then have "b = 0" unfolding b_def by auto
    with a0 show ?thesis by simp
  qed
  with c0 d show ?thesis by simp
qed

lemma year_down_upper:
  "d < DayFromYear (y + 1) \<Longrightarrow> d < DayFromYear (year_down y d + 1)"
proof (induction y d rule: year_down.induct)
  case (1 y d)
  show ?case
  proof (cases "DayFromYear y \<le> d")
    case True
    then show ?thesis using "1.prems" by (simp add: year_down.simps [of y d])
  next
    case False
    then have "d < DayFromYear (y - 1 + 1)" by simp
    from "1.IH" [OF False this] False show ?thesis
      by (simp add: year_down.simps [of y d])
  qed
qed

lemma YearFromDay_correct:
  assumes "0 \<le> d"
  shows "DayFromYear (YearFromDay d) \<le> d \<and> d < DayFromYear (YearFromDay d + 1)"
proof -
  define k where "k = d div 365"
  have k0: "0 \<le> k" unfolding k_def using assms by (intro pos_imp_zdiv_nonneg_iff [THEN iffD2]) simp_all
  define r where "r = d mod 365"
  have "d = 365 * k + r" unfolding k_def r_def by (rule mult_div_mod_eq [symmetric])
  moreover have "r < 365" unfolding r_def by (rule pos_mod_bound) simp
  ultimately have "d < 365 * (k + 1)" by simp
  also have "\<dots> \<le> DayFromYear (1970 + (k + 1))"
    using k0 by (intro DayFromYear_lower) simp
  finally have "d < DayFromYear (1970 + k + 1)" by (simp only: add.assoc)
  then have u: "d < DayFromYear (year_down (1970 + k) d + 1)" by (rule year_down_upper)
  have "1970 \<le> 1970 + k" using k0 by linarith
  from year_down_bounds [OF this assms] u show ?thesis
    by (simp only: YearFromDay_def k_def)
qed

lemma MonthFromDay_range: "0 \<le> MonthFromDay leap dwy \<and> MonthFromDay leap dwy \<le> 11"
  by (simp add: MonthFromDay_def)

lemma month_start_MonthFromDay: "0 \<le> dwy \<Longrightarrow> month_start leap (MonthFromDay leap dwy) \<le> dwy"
  by (cases leap) (simp_all add: MonthFromDay_def month_start_def)

lemma civil_bounds: "0 \<le> getFullYear t \<and> 0 \<le> getMonth t + 1 \<and> 0 \<le> getDate t"
proof -
  have "0 \<le> getFullYear t" using getFullYear_bounds [of t] by simp
  moreover have "0 \<le> getMonth t + 1"
    using MonthFromDay_range [of "InLeapYear (getFullYear t)" "DayWithinYear t"]
    by (simp add: getMonth_def)
  moreover have "0 \<le> getDate t"
    using month_start_MonthFromDay [of "DayWithinYear t" "InLeapYear (getFullYear t)"]
      getFullYear_bounds [of t]
    by (simp add: getDate_def getMonth_def)
  ultimately show ?thesis by simp
qed

lemma day_from_civil:
  "int (day t) = DayFromYear (getFullYear t)
      + month_start (InLeapYear (getFullYear t)) (getMonth t) + getDate t - 1"
  by (simp add: getDate_def DayWithinYear_def)

lemma date_text_day: "date_text t = date_text t' \<Longrightarrow> day t = day t'"
proof -
  assume a: "date_text t = date_text t'"
  note b = civil_bounds [of t] civil_bounds [of t']
  from a b have
    "''week-'' @ show_nat (nat (getFullYear t)) @ ''-'' @ show_nat (nat (getMonth t + 1)) @ ''-'' @
       show_nat (nat (getDate t))
     = ''week-'' @ show_nat (nat (getFullYear t')) @ ''-'' @ show_nat (nat (getMonth t' + 1)) @ ''-'' @
       show_nat (nat (getDate t'))"
    by (simp add: date_text_def show_int_def)
  from date_text_inj [OF this] b
  have "getFullYear t = getFullYear t'" "getMonth t = getMonth t'" "getDate t = getDate t'"
    by linarith+
  then have "int (day t) = int (day t')"
    using day_from_civil [of t] day_from_civil [of t'] by simp
  then show ?thesis by simp
qed

lemma weekId_date_text: "weekId (getCurrentNFLWeekInfo now) = date_text (upcomingTuesday now)"
  by (simp add: getCurrentNFLWeekInfo_def date_text_def Let_def)

lemma day_upcomingTuesday: "day (upcomingTuesday now) = day now + (9 - (day now + 4) mod 7) mod 7"
  by (simp add: upcomingTuesday_def setHours_def addDays_def getDay_def)

lemma upcomingTuesday_eq:
  "upcomingTuesday now = \<lparr>day = day now + (9 - (day now + 4) mod 7) mod 7, msec = 60000\<rparr>"
  by (cases now) (simp add: upcomingTuesday_def setHours_def addDays_def getDay_def)

lemma week_info_of_tuesday:
  "day (upcomingTuesday t') = day (upcomingTuesday t)
   \<Longrightarrow> getCurrentNFLWeekInfo t' = getCurrentNFLWeekInfo t"
  by (simp add: getCurrentNFLWeekInfo_def Let_def upcomingTuesday_eq)

lemma same_residue:
  fixes a b :: nat
  assumes "a mod 7 = b mod 7" and "a \<le> b" and "b < a + 7"
  shows "a = b"
proof -
  have "7 dvd b - a" using assms(1) [symmetric] assms(2) by (simp only: mod_eq_dvd_iff_nat)
  moreover have "b - a < 7" using assms by linarith
  ultimately have "b - a = 0" by (meson dvd_imp_le not_less zero_less_iff_neq_zero)
  then show ?thesis using assms(2) by simp
qed

lemma shift_weekday:
  fixes u :: nat
  assumes "(u + 4) mod 7 = r"
  shows "(u + k + 4) mod 7 = (r + k) mod 7"
proof -
  have "u + k + 4 = (u + 4) + k" by (simp only: ac_simps)
  then have "(u + k + 4) mod 7 = ((u + 4) + k) mod 7" by (rule arg_cong)
  also have "\<dots> = ((u + 4) mod 7 + k) mod 7" by (simp only: mod_add_left_eq)
  finally show ?thesis unfolding assms .
qed

lemma tuesday_offset:
  fixes m :: nat
  assumes "m < 7"
  shows "(m + (9 - m) mod 7) mod 7 = 2 \<and> (9 - m) mod 7 \<le> 6"
proof -
  from assms have "m = 0 \<or> m = 1 \<or> m = 2 \<or> m = 3 \<or> m = 4 \<or> m = 5 \<or> m = 6" by linarith
  then show ?thesis by (elim disjE) simp_all
qed

lemma tuesday_weekday: "(d + (9 - (d + 4) mod 7) mod 7 + 4) mod 7 = (2::nat)"
proof -
  define m where "m = (d + 4) mod 7"
  have "m < 7" unfolding m_def by (rule mod_less_divisor) simp
  then have o: "(m + (9 - m) mod 7) mod 7 = 2" by (rule tuesday_offset [THEN conjunct1])
  have "(d + (9 - m) mod 7 + 4) mod 7 = (m + (9 - m) mod 7) mod 7"
    by (rule shift_weekday) (simp only: m_def)
  from this o show ?thesis unfolding m_def by (rule trans)
qed

lemma tuesday_within_six: "(9 - (d + 4) mod 7) mod 7 \<le> (6::nat)"
proof -
  have "(d + 4) mod 7 < 7" by (rule mod_less_divisor) simp
  then show ?thesis by (rule tuesday_offset [THEN conjunct2])
qed

lemma tuesday_unique:
  fixes v d :: nat
  assumes "(v + 4) mod 7 = 2" and "d \<le> v" and "v \<le> d + 6"
  shows "d + (9 - (d + 4) mod 7) mod 7 = v"
proof -
  define w where "w = d + (9 - (d + 4) mod 7) mod 7"
  have "(w + 4) mod 7 = 2" unfolding w_def by (rule tuesday_weekday)
  then have e: "(w + 4) mod 7 = (v + 4) mod 7" using assms(1) by (rule trans_sym)
  have r: "d \<le> w" "w \<le> d + 6"
    unfolding w_def using tuesday_within_six [of d] by linarith+
  have "w + 4 = v + 4"
  proof (cases "w \<le> v")
    case True
    show ?thesis
    proof (rule same_residue [OF e])
      show "w + 4 \<le> v + 4" using True by linarith
      show "v + 4 < w + 4 + 7" using assms(3) r(1) by linarith
    qed
  next
    case False
    have "v + 4 = w + 4"
    proof (rule same_residue [OF e [symmetric]])
      show "v + 4 \<le> w + 4" using False by linarith
      show "w + 4 < v + 4 + 7" using assms(2) r(2) by linarith
    qed
    then show ?thesis by (rule sym)
  qed
  then have "w = v" by linarith
  then show ?thesis unfolding w_def .
qed

lemma upcoming_weekday: "(day (upcomingTuesday t) + 4) mod 7 = 2"
  unfolding day_upcomingTuesday by (rule tuesday_weekday)

lemma upcoming_range: "day t \<le> day (upcomingTuesday t) \<and> day (upcomingTuesday t) \<le> day t + 6"
  unfolding day_upcomingTuesday
  by (rule conjI, rule le_add1, rule add_left_mono, rule tuesday_within_six)

lemma upcoming_unique:
  "(v + 4) mod 7 = 2 \<Longrightarrow> day t' \<le> v \<Longrightarrow> v \<le> day t' + 6 \<Longrightarrow> day (upcomingTuesday t') = v"
  unfolding day_upcomingTuesday by (rule tuesday_unique)

lemma msec_upcomingTuesday: "msec (upcomingTuesday t) = 60000"
  by (simp add: upcomingTuesday_def setHours_def)

lemma week_info_boundaries:
  "bettingWindowStart (getCurrentNFLWeekInfo t) = upcomingTuesday t
   \<and> bettingWindowEnd (getCurrentNFLWeekInfo t)
        = \<lparr>day = day (upcomingTuesday t) + 2, msec = 17 * 3600000\<rparr>
   \<and> picksRevealTime (getCurrentNFLWeekInfo t)
        = \<lparr>day = day (upcomingTuesday t) + 3, msec = 12 * 3600000\<rparr>"
  by (cases "upcomingTuesday t")
     (simp add: getCurrentNFLWeekInfo_def Let_def setHours_def addDays_def)

text \<open>
  C6: the clock does not keep one \<^verbatim>\<open>weekId\<close> from Tuesday 00:01 to the following
  Tuesday. At Tuesday 3 September 2024, 12:00 it gives \<^verbatim>\<open>week-2024-9-3\<close>, with the
  window closing on Thursday 5 September at 17:00. At Wednesday 12:00 and at Thursday
  16:00, inside that week and before that window closes, it gives
  \<^verbatim>\<open>week-2024-9-10\<close>, whose window starts on 10 September. A scheduled pass on that
  Thursday looks for the document of \<^verbatim>\<open>week-2024-9-10\<close>, finds none and settles
  nothing of \<^verbatim>\<open>week-2024-9-3\<close>.
\<close>

theorem window_days_get_next_week:
  "getDay now_tuesday = 2 \<and> getDay now_wednesday = 3 \<and> getDay now_thursday = 4
   \<and> bettingWindowStart (getCurrentNFLWeekInfo now_tuesday) = \<lparr>day = 19969, msec = 60000\<rparr>
   \<and> bettingWindowEnd (getCurrentNFLWeekInfo now_tuesday) = \<lparr>day = 19971, msec = 61200000\<rparr>
   \<and> 19969 * 86400000 + 60000 \<le> day now_tuesday * 86400000 + msec now_tuesday
   \<and> day now_tuesday * 86400000 + msec now_tuesday
        < day now_wednesday * 86400000 + msec now_wednesday
   \<and> day now_wednesday * 86400000 + msec now_wednesday
        < day now_thursday * 86400000 + msec now_thursday
   \<and> day now_thursday * 86400000 + msec now_thursday < 19971 * 86400000 + 61200000
   \<and> weekId (getCurrentNFLWeekInfo now_tuesday) = ''week-2024-9-3''
   \<and> weekId (getCurrentNFLWeekInfo now_wednesday) = ''week-2024-9-10''
   \<and> weekId (getCurrentNFLWeekInfo now_thursday) = ''week-2024-9-10''
   \<and> bettingWindowStart (getCurrentNFLWeekInfo now_thursday) = \<lparr>day = 19976, msec = 60000\<rparr>
   \<and> weekId (getCurrentNFLWeekInfo now_tuesday) \<noteq> weekId (getCurrentNFLWeekInfo now_wednesday)
   \<and> nflWeeks (syncNflDataAndSettle now_thursday (Fetched ([], [score_two_final])) store_two)
       = nflWeeks store_two
   \<and> ledger ''week-2024-9-3''
        (syncNflDataAndSettle now_thursday (Fetched ([], [score_two_final])) store_two)
       = ledger ''week-2024-9-3'' store_two"
  by (simp add: week_info_tuesday week_info_wednesday week_info_thursday syncNflDataAndSettle_def
        store_two_def)
     (simp add: now_tuesday_def now_wednesday_def now_thursday_def getDay_def)

text \<open>
  What the clock computes: the week information is a function of the local calendar day. For a
  reference instant \<open>t\<close>, let the upcoming Tuesday be the first Tuesday on or after the
  day of \<open>t\<close> (at most six days later), at 00:01. Every instant whose day lies in the seven
  days ending with that Tuesday, that is Wednesday to Tuesday, yields the same
  \<^verbatim>\<open>weekId\<close> and boundaries: the window starts on that Tuesday at 00:01, closes on the
  Thursday two days later at 17:00, and the reveal is on the Friday three days later at
  12:00. Instants in the seven days after, or in the seven days before that period, yield
  a different \<^verbatim>\<open>weekId\<close>.
\<close>

lemma week_clock_wednesday_to_tuesday:
  assumes "day t' \<le> day (upcomingTuesday t)" and "day (upcomingTuesday t) \<le> day t' + 6"
  shows "getCurrentNFLWeekInfo t' = getCurrentNFLWeekInfo t
     \<and> bettingWindowStart (getCurrentNFLWeekInfo t) = upcomingTuesday t
     \<and> getDay (upcomingTuesday t) = 2 \<and> msec (upcomingTuesday t) = 60000
     \<and> day t \<le> day (upcomingTuesday t) \<and> day (upcomingTuesday t) \<le> day t + 6
     \<and> bettingWindowEnd (getCurrentNFLWeekInfo t)
          = \<lparr>day = day (upcomingTuesday t) + 2, msec = 17 * 3600000\<rparr>
     \<and> getDay (bettingWindowEnd (getCurrentNFLWeekInfo t)) = 4
     \<and> picksRevealTime (getCurrentNFLWeekInfo t)
          = \<lparr>day = day (upcomingTuesday t) + 3, msec = 12 * 3600000\<rparr>
     \<and> getDay (picksRevealTime (getCurrentNFLWeekInfo t)) = 5
     \<and> (\<forall>t''. (day (upcomingTuesday t) < day t'' \<and> day t'' \<le> day (upcomingTuesday t) + 7)
               \<or> (day t'' + 7 \<le> day (upcomingTuesday t) \<and> day (upcomingTuesday t) \<le> day t'' + 13)
             \<longrightarrow> weekId (getCurrentNFLWeekInfo t'') \<noteq> weekId (getCurrentNFLWeekInfo t))"
proof -
  define u where "u = day (upcomingTuesday t)"
  have wd: "(u + 4) mod 7 = 2" unfolding u_def by (rule upcoming_weekday)
  have rng: "day t \<le> u \<and> u \<le> day t + 6" unfolding u_def by (rule upcoming_range)
  have "day (upcomingTuesday t') = u"
    using wd assms unfolding u_def by (rule upcoming_unique)
  then have 1: "getCurrentNFLWeekInfo t' = getCurrentNFLWeekInfo t"
    unfolding u_def by (rule week_info_of_tuesday)
  note 2 = week_info_boundaries [of t, folded u_def]
  have 3: "getDay (upcomingTuesday t) = 2"
    using wd by (simp only: getDay_def u_def)
  have "(u + 2 + 4) mod 7 = (2 + 2) mod 7" using wd by (rule shift_weekday)
  then have 4: "getDay \<lparr>day = u + 2, msec = 17 * 3600000\<rparr> = 4"
    by (simp add: getDay_def)
  have "(u + 3 + 4) mod 7 = (2 + 3) mod 7" using wd by (rule shift_weekday)
  then have 5: "getDay \<lparr>day = u + 3, msec = 12 * 3600000\<rparr> = 5"
    by (simp add: getDay_def)
  have 6: "weekId (getCurrentNFLWeekInfo t'') \<noteq> weekId (getCurrentNFLWeekInfo t)"
    if c: "(u < day t'' \<and> day t'' \<le> u + 7) \<or> (day t'' + 7 \<le> u \<and> u \<le> day t'' + 13)" for t''
  proof
    assume "weekId (getCurrentNFLWeekInfo t'') = weekId (getCurrentNFLWeekInfo t)"
    then have "date_text (upcomingTuesday t'') = date_text (upcomingTuesday t)"
      by (simp only: weekId_date_text)
    then have e: "day (upcomingTuesday t'') = u"
      unfolding u_def by (rule date_text_day)
    have "day t'' \<le> day (upcomingTuesday t'') \<and> day (upcomingTuesday t'') \<le> day t'' + 6"
      by (rule upcoming_range)
    with e c show False by linarith
  qed
  from 1 2 3 4 5 6 rng msec_upcomingTuesday [of t] show ?thesis
    unfolding u_def by simp
qed

lemma week_clock_wednesday_to_tuesday_example:
  "getCurrentNFLWeekInfo \<lparr>day = 19964, msec = 1000\<rparr> = getCurrentNFLWeekInfo now_tuesday
   \<and> bettingWindowEnd (getCurrentNFLWeekInfo now_tuesday) = \<lparr>day = 19971, msec = 61200000\<rparr>"
  using week_clock_wednesday_to_tuesday [of "\<lparr>day = 19964, msec = 1000\<rparr>" now_tuesday]
  by (simp add: upcomingTuesday_eq now_tuesday_def)

section \<open>Winnings of a partly settled submission\<close>

lemmas pass_defs = syncNflDataAndSettle_def week_info_tuesday merge_defs commit_defs settle_defs
  example_defs leaderboard_phase_def profile_batch_fails_def week_one_def score_two_final_def
  user_one_def

text \<open>
  C2: the code does not credit the difference on every run, and winnings are lost. A
  submission with two winning picks (final total 8.5) belongs to a user whose balance is
  1. The first pass finds only the first game completed: it stores
  \<^verbatim>\<open>totalWinnerBucksWon\<close> = 6 and credits nothing, because the increment is queued only
  when every picked game is completed. The second pass finds both completed: it stores 8.5
  and credits 8.5 - 6 = 2.5, the stored 6 never having been credited. The balance ends at
  3.5, and later passes skip the settled submission.
\<close>

theorem partial_winnings_never_credited:
  "ledger ''week-2024-9-3'' store_two = [(Some (Num 1), Some (Num 0, False))]
   \<and> ledger ''week-2024-9-3'' (syncNflDataAndSettle now_tuesday (Fetched ([], [])) store_two)
       = [(Some (Num 1), Some (Num 6, False))]
   \<and> ledger ''week-2024-9-3''
        (syncNflDataAndSettle now_tuesday (Fetched ([], [score_two_final]))
           (syncNflDataAndSettle now_tuesday (Fetched ([], [])) store_two))
       = [(Some (Num 3.5), Some (Num 8.5, True))]
   \<and> ledger ''week-2024-9-3''
        (syncNflDataAndSettle now_tuesday (Fetched ([], [score_two_final]))
           (syncNflDataAndSettle now_tuesday (Fetched ([], [score_two_final]))
              (syncNflDataAndSettle now_tuesday (Fetched ([], [])) store_two)))
       = [(Some (Num 3.5), Some (Num 8.5, True))]"
  by (simp add: ledger_def store_two_def user_week_def pass_defs)

text \<open>
  A second way to lose winnings: when another user's profile document is missing, the
  profile batch fails as a whole after the predictions batch has been committed. The
  submission is stored as settled with total 8.5, the balance stays 1, and later passes
  skip it.
\<close>

lemma credit_lost_when_profile_batch_fails:
  "ledger ''week-2024-9-3'' store_three
       = [(Some (Num 1), Some (Num 0, False)), (None, Some (Num 0, False))]
   \<and> ledger ''week-2024-9-3''
        (syncNflDataAndSettle now_tuesday (Fetched ([], [score_two_final])) store_three)
       = [(Some (Num 1), Some (Num 8.5, True)), (None, Some (Num 8.5, True))]
   \<and> ledger ''week-2024-9-3''
        (syncNflDataAndSettle now_tuesday (Fetched ([], [score_two_final]))
           (syncNflDataAndSettle now_tuesday (Fetched ([], [score_two_final])) store_three))
       = [(Some (Num 1), Some (Num 8.5, True)), (None, Some (Num 8.5, True))]"
  by (simp add: ledger_def store_three_def user_week_def user_no_profile_def pass_defs)

end
